theory Spec2Isabelle
  imports Main "HOL-Library.Sublist" "HOL-Library.Char_ord" "HOL-Library.List_Lexorder"
    "HOL-Library.Multiset"
begin

section \<open>Strings and paths (Go standard library, Unix flavour)\<close>

text \<open>
  Go strings are byte sequences; they are modelled as \<open>string\<close> (a list of 8-bit
  characters). The path separator is \<open>/\<close> (\<open>filepath.Separator\<close> on Unix), where
  \<open>path.Dir\<close> and \<open>filepath.Dir\<close> coincide.
\<close>

definition Separator :: char where
  "Separator = CHR ''/''"

text \<open>\<open>strings.Join(elems, sep)\<close>.\<close>

fun strings_Join :: "string list \<Rightarrow> string \<Rightarrow> string" where
  "strings_Join [] s = []"
| "strings_Join [e] s = e"
| "strings_Join (e # es) s = e @ s @ strings_Join es s"

text \<open>The path elements between separators, as the scanning loop of \<open>Clean\<close> meets them.\<close>

primrec elements :: "string \<Rightarrow> string list" where
  "elements [] = [[]]"
| "elements (c # cs) =
     (if c = Separator then [] # elements cs
      else (case elements cs of [] \<Rightarrow> [[c]] | e # es \<Rightarrow> (c # e) # es))"

text \<open>
  The element loop of \<open>filepath.Clean\<close>: empty and \<open>.\<close> elements are dropped, a
  \<open>..\<close> element removes the preceding real element when there is one, is dropped at the
  root of a rooted path, and is kept otherwise.
\<close>

fun clean_elems :: "bool \<Rightarrow> string list \<Rightarrow> string list \<Rightarrow> string list" where
  "clean_elems rooted out [] = out"
| "clean_elems rooted out (e # es) =
     (if e = [] \<or> e = ''.'' then clean_elems rooted out es
      else if e = ''..'' then
        (if out \<noteq> [] \<and> last out \<noteq> ''..'' then clean_elems rooted (butlast out) es
         else if rooted then clean_elems rooted out es
         else clean_elems rooted (out @ [''..'']) es)
      else clean_elems rooted (out @ [e]) es)"

definition Clean :: "string \<Rightarrow> string" where
  "Clean path =
     (if path = [] then ''.''
      else
        (let rooted = (hd path = Separator);
             out = strings_Join (clean_elems rooted [] (elements path)) [Separator];
             res = (if rooted then Separator # out else out)
         in if res = [] then ''.'' else res))"

text \<open>\<open>filepath.Dir\<close>: the cleaned prefix up to and including the last separator.\<close>

definition Dir :: "string \<Rightarrow> string" where
  "Dir path = Clean (rev (dropWhile (\<lambda>c. c \<noteq> Separator) (rev path)))"

text \<open>\<open>filepath.Base\<close>: the last element, after trailing separators are removed.\<close>

definition Base :: "string \<Rightarrow> string" where
  "Base path =
     (if path = [] then ''.''
      else
        (let p = rev (dropWhile (\<lambda>c. c = Separator) (rev path));
             b = rev (takeWhile (\<lambda>c. c \<noteq> Separator) (rev p))
         in if b = [] then [Separator] else b))"

text \<open>\<open>filepath.Ext\<close>: the suffix from the last dot of the last element, if any.\<close>

definition Ext :: "string \<Rightarrow> string" where
  "Ext path =
     (let r = rev path;
          t = takeWhile (\<lambda>c. c \<noteq> Separator \<and> c \<noteq> CHR ''.'') r
      in case drop (length t) r of
           [] \<Rightarrow> []
         | c # _ \<Rightarrow> (if c = CHR ''.'' then c # rev t else []))"

text \<open>\<open>filepath.Join\<close>: leading empty elements are ignored, the rest is joined and cleaned.\<close>

fun Join :: "string list \<Rightarrow> string" where
  "Join [] = []"
| "Join (e # es) = (if e \<noteq> [] then Clean (strings_Join (e # es) [Separator]) else Join es)"

declare Join.simps [simp del]

text \<open>\<open>strings.Contains\<close>, \<open>strings.TrimSuffix\<close>, \<open>strings.TrimLeft\<close>.\<close>

definition Contains :: "string \<Rightarrow> string \<Rightarrow> bool" where
  "Contains s substr = sublist substr s"

definition TrimSuffix :: "string \<Rightarrow> string \<Rightarrow> string" where
  "TrimSuffix s suf = (if suffix suf s then take (length s - length suf) s else s)"

definition TrimLeft :: "string \<Rightarrow> string \<Rightarrow> string" where
  "TrimLeft s cutset = dropWhile (\<lambda>c. c \<in> set cutset) s"

text \<open>
  \<open>strings.Replace(s, old, new, 1)\<close> for a non-empty \<open>old\<close>: only the first occurrence
  is replaced.
\<close>

fun Replace1 :: "string \<Rightarrow> string \<Rightarrow> string \<Rightarrow> string" where
  "Replace1 [] old new = (if old = [] then new else [])"
| "Replace1 (c # cs) old new =
     (if prefix old (c # cs) then new @ drop (length old) (c # cs)
      else c # Replace1 cs old new)"

text \<open>\<open>strings.ReplaceAll(s, string(c), new)\<close> for a one-byte \<open>old\<close>.\<close>

definition ReplaceAll_char :: "string \<Rightarrow> char \<Rightarrow> string \<Rightarrow> string" where
  "ReplaceAll_char s c new = concat (map (\<lambda>x. if x = c then new else [x]) s)"

text \<open>
  UTF-8, as package \<open>unicode/utf8\<close> has it. A rune is an \<open>int\<close>.
  \<open>DecodeRuneInString\<close> returns the first rune of the string and its width in bytes;
  a byte that starts no valid encoding is the rune \<open>RuneError\<close> with width 1.
\<close>

definition RuneError :: int where
  "RuneError = 0xFFFD"

definition RuneSelf :: int where
  "RuneSelf = 0x80"

definition MaxRune :: int where
  "MaxRune = 0x10FFFF"

fun DecodeRuneInString :: "string \<Rightarrow> int \<times> nat" where
  "DecodeRuneInString [] = (RuneError, 0)"
| "DecodeRuneInString (c # cs) =
     (let s = map of_char (c # cs);
          n = length s;
          s0 = s ! 0
      in if s0 < RuneSelf then (s0, 1)
         else if s0 < 0xC2 \<or> 0xF4 < s0 then (RuneError, 1)
         else
           (let sz = (if s0 < 0xE0 then 2 else if s0 < 0xF0 then 3 else 4);
                lo = (if s0 = 0xE0 then 0xA0 else if s0 = 0xF0 then 0x90 else 0x80);
                hi = (if s0 = 0xED then 0x9F else if s0 = 0xF4 then 0x8F else 0xBF)
            in if n < sz then (RuneError, 1)
               else if s ! 1 < lo \<or> hi < s ! 1 then (RuneError, 1)
               else if sz \<le> 2 then (s0 mod 32 * 64 + s ! 1 mod 64, 2)
               else if s ! 2 < 0x80 \<or> 0xBF < s ! 2 then (RuneError, 1)
               else if sz \<le> 3 then (s0 mod 16 * 4096 + s ! 1 mod 64 * 64 + s ! 2 mod 64, 3)
               else if s ! 3 < 0x80 \<or> 0xBF < s ! 3 then (RuneError, 1)
               else (s0 mod 8 * 262144 + s ! 1 mod 64 * 4096 + s ! 2 mod 64 * 64 + s ! 3 mod 64,
                     4)))"

text \<open>The runes that \<open>for _, c := range s\<close> meets, each with its width.\<close>

function runes :: "string \<Rightarrow> (int \<times> nat) list" where
  "runes [] = []"
| "runes (c # cs) =
     (case DecodeRuneInString (c # cs) of
        (r, width) \<Rightarrow> (r, width) # runes (drop width (c # cs)))"
  by pat_completeness auto

termination
proof (relation "measure length")
  show "wf (measure length)"
    by simp
next
  fix c :: char and cs :: string and r :: int and width :: nat
  assume "(r, width) = DecodeRuneInString (c # cs)"
  then have "0 < width"
    by (simp add: Let_def split: if_splits)
  then show "(drop width (c # cs), c # cs) \<in> measure length"
    by simp
qed

declare DecodeRuneInString.simps [simp del]

text \<open>
  \<open>utf8.EncodeRune\<close>: a rune out of range (a negative one among them) or a surrogate
  is written as \<open>RuneError\<close>.
\<close>

definition EncodeRune :: "int \<Rightarrow> string" where
  "EncodeRune r =
     (if 0 \<le> r \<and> r \<le> 0x7F then [char_of r]
      else if 0 \<le> r \<and> r \<le> 0x7FF then [char_of (0xC0 + r div 64), char_of (0x80 + r mod 64)]
      else if r < 0 \<or> MaxRune < r \<or> (0xD800 \<le> r \<and> r \<le> 0xDFFF) then
        [CHR 0xEF, CHR 0xBF, CHR 0xBD]
      else if r \<le> 0xFFFF then
        [char_of (0xE0 + r div 4096), char_of (0x80 + r div 64 mod 64), char_of (0x80 + r mod 64)]
      else
        [char_of (0xF0 + r div 262144), char_of (0x80 + r div 4096 mod 64),
         char_of (0x80 + r div 64 mod 64), char_of (0x80 + r mod 64)])"

text \<open>
  \<open>strings.Map\<close>. The string is returned as it is when the mapping changes no rune
  and every byte is part of a valid encoding; otherwise the bytes before the first rune
  that changes (or is invalid) are copied, and from there on every rune is written as the
  encoding of its image, a negative image being dropped.
\<close>

definition strings_Map :: "(int \<Rightarrow> int) \<Rightarrow> string \<Rightarrow> string" where
  "strings_Map mapping s =
     (let rs = runes s;
          same = takeWhile (\<lambda>(c, width). mapping c = c \<and> \<not> (c = RuneError \<and> width = 1)) rs
      in if length same = length rs then s
         else take (sum_list (map snd same)) s @
              concat (map (\<lambda>(c, width). if 0 \<le> mapping c then EncodeRune (mapping c) else [])
                        (drop (length same) rs)))"

text \<open>
  \<open>unicode.ToLower\<close>. Above ASCII it is the lookup in \<open>unicode.CaseRanges\<close>; the
  table here holds the rows that change a rune on lower-casing, as
  \<open>(Lo, Hi, stride, delta)\<close>: the runes \<open>Lo\<close>, \<open>Lo + stride\<close>, ... up to
  \<open>Hi\<close> are mapped to themselves plus \<open>delta\<close> (stride 2 is an alternating
  upper/lower row). The rows are those of Unicode 14.0; the table of another release of
  Go differs in the letters that its version of Unicode adds.
\<close>

definition CaseRanges_lower :: "(int \<times> int \<times> int \<times> int) list" where
  "CaseRanges_lower =
     [(0x00C0, 0x00D6, 1, 32), (0x00D8, 0x00DE, 1, 32), (0x0100, 0x012E, 2, 1),
      (0x0130, 0x0130, 1, - 199), (0x0132, 0x0136, 2, 1), (0x0139, 0x0147, 2, 1),
      (0x014A, 0x0176, 2, 1), (0x0178, 0x0178, 1, - 121), (0x0179, 0x017D, 2, 1),
      (0x0181, 0x0181, 1, 210), (0x0182, 0x0184, 2, 1), (0x0186, 0x0186, 1, 206),
      (0x0187, 0x0187, 1, 1), (0x0189, 0x018A, 1, 205), (0x018B, 0x018B, 1, 1),
      (0x018E, 0x018E, 1, 79), (0x018F, 0x018F, 1, 202), (0x0190, 0x0190, 1, 203),
      (0x0191, 0x0191, 1, 1), (0x0193, 0x0193, 1, 205), (0x0194, 0x0194, 1, 207),
      (0x0196, 0x0196, 1, 211), (0x0197, 0x0197, 1, 209), (0x0198, 0x0198, 1, 1),
      (0x019C, 0x019C, 1, 211), (0x019D, 0x019D, 1, 213), (0x019F, 0x019F, 1, 214),
      (0x01A0, 0x01A4, 2, 1), (0x01A6, 0x01A6, 1, 218), (0x01A7, 0x01A7, 1, 1),
      (0x01A9, 0x01A9, 1, 218), (0x01AC, 0x01AC, 1, 1), (0x01AE, 0x01AE, 1, 218),
      (0x01AF, 0x01AF, 1, 1), (0x01B1, 0x01B2, 1, 217), (0x01B3, 0x01B5, 2, 1),
      (0x01B7, 0x01B7, 1, 219), (0x01B8, 0x01B8, 1, 1), (0x01BC, 0x01BC, 1, 1),
      (0x01C4, 0x01C4, 1, 2), (0x01C5, 0x01C5, 1, 1), (0x01C7, 0x01C7, 1, 2),
      (0x01C8, 0x01C8, 1, 1), (0x01CA, 0x01CA, 1, 2), (0x01CB, 0x01DB, 2, 1),
      (0x01DE, 0x01EE, 2, 1), (0x01F1, 0x01F1, 1, 2), (0x01F2, 0x01F4, 2, 1),
      (0x01F6, 0x01F6, 1, - 97), (0x01F7, 0x01F7, 1, - 56), (0x01F8, 0x021E, 2, 1),
      (0x0220, 0x0220, 1, - 130), (0x0222, 0x0232, 2, 1), (0x023A, 0x023A, 1, 10795),
      (0x023B, 0x023B, 1, 1), (0x023D, 0x023D, 1, - 163), (0x023E, 0x023E, 1, 10792),
      (0x0241, 0x0241, 1, 1), (0x0243, 0x0243, 1, - 195), (0x0244, 0x0244, 1, 69),
      (0x0245, 0x0245, 1, 71), (0x0246, 0x024E, 2, 1), (0x0370, 0x0372, 2, 1),
      (0x0376, 0x0376, 1, 1), (0x037F, 0x037F, 1, 116), (0x0386, 0x0386, 1, 38),
      (0x0388, 0x038A, 1, 37), (0x038C, 0x038C, 1, 64), (0x038E, 0x038F, 1, 63),
      (0x0391, 0x03A1, 1, 32), (0x03A3, 0x03AB, 1, 32), (0x03CF, 0x03CF, 1, 8),
      (0x03D8, 0x03EE, 2, 1), (0x03F4, 0x03F4, 1, - 60), (0x03F7, 0x03F7, 1, 1),
      (0x03F9, 0x03F9, 1, - 7), (0x03FA, 0x03FA, 1, 1), (0x03FD, 0x03FF, 1, - 130),
      (0x0400, 0x040F, 1, 80), (0x0410, 0x042F, 1, 32), (0x0460, 0x0480, 2, 1),
      (0x048A, 0x04BE, 2, 1), (0x04C0, 0x04C0, 1, 15), (0x04C1, 0x04CD, 2, 1),
      (0x04D0, 0x052E, 2, 1), (0x0531, 0x0556, 1, 48), (0x10A0, 0x10C5, 1, 7264),
      (0x10C7, 0x10C7, 1, 7264), (0x10CD, 0x10CD, 1, 7264), (0x13A0, 0x13EF, 1, 38864),
      (0x13F0, 0x13F5, 1, 8), (0x1C90, 0x1CBA, 1, - 3008), (0x1CBD, 0x1CBF, 1, - 3008),
      (0x1E00, 0x1E94, 2, 1), (0x1E9E, 0x1E9E, 1, - 7615), (0x1EA0, 0x1EFE, 2, 1),
      (0x1F08, 0x1F0F, 1, - 8), (0x1F18, 0x1F1D, 1, - 8), (0x1F28, 0x1F2F, 1, - 8),
      (0x1F38, 0x1F3F, 1, - 8), (0x1F48, 0x1F4D, 1, - 8), (0x1F59, 0x1F5F, 2, - 8),
      (0x1F68, 0x1F6F, 1, - 8), (0x1F88, 0x1F8F, 1, - 8), (0x1F98, 0x1F9F, 1, - 8),
      (0x1FA8, 0x1FAF, 1, - 8), (0x1FB8, 0x1FB9, 1, - 8), (0x1FBA, 0x1FBB, 1, - 74),
      (0x1FBC, 0x1FBC, 1, - 9), (0x1FC8, 0x1FCB, 1, - 86), (0x1FCC, 0x1FCC, 1, - 9),
      (0x1FD8, 0x1FD9, 1, - 8), (0x1FDA, 0x1FDB, 1, - 100), (0x1FE8, 0x1FE9, 1, - 8),
      (0x1FEA, 0x1FEB, 1, - 112), (0x1FEC, 0x1FEC, 1, - 7), (0x1FF8, 0x1FF9, 1, - 128),
      (0x1FFA, 0x1FFB, 1, - 126), (0x1FFC, 0x1FFC, 1, - 9), (0x2126, 0x2126, 1, - 7517),
      (0x212A, 0x212A, 1, - 8383), (0x212B, 0x212B, 1, - 8262), (0x2132, 0x2132, 1, 28),
      (0x2160, 0x216F, 1, 16), (0x2183, 0x2183, 1, 1), (0x24B6, 0x24CF, 1, 26),
      (0x2C00, 0x2C2F, 1, 48), (0x2C60, 0x2C60, 1, 1), (0x2C62, 0x2C62, 1, - 10743),
      (0x2C63, 0x2C63, 1, - 3814), (0x2C64, 0x2C64, 1, - 10727), (0x2C67, 0x2C6B, 2, 1),
      (0x2C6D, 0x2C6D, 1, - 10780), (0x2C6E, 0x2C6E, 1, - 10749),
      (0x2C6F, 0x2C6F, 1, - 10783), (0x2C70, 0x2C70, 1, - 10782), (0x2C72, 0x2C72, 1, 1),
      (0x2C75, 0x2C75, 1, 1), (0x2C7E, 0x2C7F, 1, - 10815), (0x2C80, 0x2CE2, 2, 1),
      (0x2CEB, 0x2CED, 2, 1), (0x2CF2, 0x2CF2, 1, 1), (0xA640, 0xA66C, 2, 1),
      (0xA680, 0xA69A, 2, 1), (0xA722, 0xA72E, 2, 1), (0xA732, 0xA76E, 2, 1),
      (0xA779, 0xA77B, 2, 1), (0xA77D, 0xA77D, 1, - 35332), (0xA77E, 0xA786, 2, 1),
      (0xA78B, 0xA78B, 1, 1), (0xA78D, 0xA78D, 1, - 42280), (0xA790, 0xA792, 2, 1),
      (0xA796, 0xA7A8, 2, 1), (0xA7AA, 0xA7AA, 1, - 42308), (0xA7AB, 0xA7AB, 1, - 42319),
      (0xA7AC, 0xA7AC, 1, - 42315), (0xA7AD, 0xA7AD, 1, - 42305),
      (0xA7AE, 0xA7AE, 1, - 42308), (0xA7B0, 0xA7B0, 1, - 42258),
      (0xA7B1, 0xA7B1, 1, - 42282), (0xA7B2, 0xA7B2, 1, - 42261), (0xA7B3, 0xA7B3, 1, 928),
      (0xA7B4, 0xA7C2, 2, 1), (0xA7C4, 0xA7C4, 1, - 48), (0xA7C5, 0xA7C5, 1, - 42307),
      (0xA7C6, 0xA7C6, 1, - 35384), (0xA7C7, 0xA7C9, 2, 1), (0xA7D0, 0xA7D0, 1, 1),
      (0xA7D6, 0xA7D8, 2, 1), (0xA7F5, 0xA7F5, 1, 1), (0xFF21, 0xFF3A, 1, 32),
      (0x10400, 0x10427, 1, 40), (0x104B0, 0x104D3, 1, 40), (0x10570, 0x1057A, 1, 39),
      (0x1057C, 0x1058A, 1, 39), (0x1058C, 0x10592, 1, 39), (0x10594, 0x10595, 1, 39),
      (0x10C80, 0x10CB2, 1, 64), (0x118A0, 0x118BF, 1, 32), (0x16E40, 0x16E5F, 1, 32),
      (0x1E900, 0x1E921, 1, 34)]"

definition To_LowerCase :: "int \<Rightarrow> int" where
  "To_LowerCase r =
     (case find (\<lambda>(lo, hi, stride, delta). lo \<le> r \<and> r \<le> hi \<and> (r - lo) mod stride = 0)
             CaseRanges_lower of
        None \<Rightarrow> r
      | Some (lo, hi, stride, delta) \<Rightarrow> r + delta)"

definition unicode_ToLower :: "int \<Rightarrow> int" where
  "unicode_ToLower r =
     (if r \<le> 0x7F then (if 0x41 \<le> r \<and> r \<le> 0x5A then r + 0x20 else r)
      else To_LowerCase r)"

text \<open>
  \<open>strings.ToLower\<close>: a string of ASCII bytes is lower-cased byte by byte (and returned
  as it is when it has no capital letter); any other string goes through
  \<open>strings.Map\<close> with \<open>unicode.ToLower\<close>, which also rewrites every invalid
  byte to the encoding of \<open>RuneError\<close>.
\<close>

definition lower_byte :: "char \<Rightarrow> char" where
  "lower_byte c =
     (case map_of (zip ''ABCDEFGHIJKLMNOPQRSTUVWXYZ'' ''abcdefghijklmnopqrstuvwxyz'') c of
        None \<Rightarrow> c
      | Some l \<Rightarrow> l)"

definition ToLower :: "string \<Rightarrow> string" where
  "ToLower s =
     (let isASCII = list_all (\<lambda>c. (of_char c :: int) < RuneSelf) s;
          hasUpper = list_ex (\<lambda>c. CHR ''A'' \<le> c \<and> c \<le> CHR ''Z'') s
      in if isASCII then (if \<not> hasUpper then s else map lower_byte s)
         else strings_Map unicode_ToLower s)"

text \<open>Decimal rendering of a positive counter, as \<open>%d\<close> prints it.\<close>

definition digit_char :: "nat \<Rightarrow> char" where
  "digit_char d = ''0123456789'' ! d"

fun itoa :: "nat \<Rightarrow> string" where
  "itoa n = (if n < 10 then [digit_char n] else itoa (n div 10) @ [digit_char (n mod 10)])"

declare itoa.simps [simp del]


section \<open>The regular expressions of the program\<close>

text \<open>
  Go's \<open>regexp\<close> returns the leftmost match and, among those, the one a backtracking
  search finds first. Each pattern is written as the backtracking matcher of its own
  shape; \<open>.\<close> does not match a newline.
\<close>

definition newline :: char where
  "newline = CHR 0x0A"

definition carriage_return :: char where
  "carriage_return = CHR 0x0D"

text \<open>
  \<open>titleRe = #+(.*)\<close>, \<open>FindString\<close>: the match starts at the first \<open>#\<close> and, both
  repetitions being greedy, runs to the end of the line; no match is the empty string.
\<close>

definition titleRe_FindString :: "string \<Rightarrow> string" where
  "titleRe_FindString s =
     takeWhile (\<lambda>c. c \<noteq> newline) (dropWhile (\<lambda>c. c \<noteq> CHR ''#'') s)"

text \<open>
  \<open>imageRe = !\[.*]\((.+)\)\<close>, \<open>FindStringSubmatch\<close>, group 1.
  \<open>img_target\<close> matches \<open>(.+)\)\<close>, \<open>img_close\<close> matches \<open>]\((.+)\)\<close>,
  \<open>img_alt\<close> matches \<open>.*]\((.+)\)\<close>; the greedy repetitions try the longer
  alternative first.
\<close>

fun img_target :: "string \<Rightarrow> string option" where
  "img_target [] = None"
| "img_target (c # cs) =
     (if c = newline then None
      else (case img_target cs of
              Some g \<Rightarrow> Some (c # g)
            | None \<Rightarrow> (if prefix '')'' cs then Some [c] else None)))"

definition img_close :: "string \<Rightarrow> string option" where
  "img_close s = (if prefix '']('' s then img_target (drop 2 s) else None)"

fun img_alt :: "string \<Rightarrow> string option" where
  "img_alt [] = img_close []"
| "img_alt (c # cs) =
     (if c = newline then img_close (c # cs)
      else (case img_alt cs of
              Some g \<Rightarrow> Some g
            | None \<Rightarrow> img_close (c # cs)))"

fun imageRe_FindStringSubmatch :: "string \<Rightarrow> string option" where
  "imageRe_FindStringSubmatch [] = None"
| "imageRe_FindStringSubmatch (c # cs) =
     (case (if prefix ''!['' (c # cs) then img_alt (drop 2 (c # cs)) else None) of
        Some g \<Rightarrow> Some g
      | None \<Rightarrow> imageRe_FindStringSubmatch cs)"

text \<open>
  The pattern of \<open>uniqueName\<close>, \<open>(?mU)(.*)_*\d*$\<close>, group 1. Under the \<open>U\<close> flag the
  group is the shortest prefix after which only underscores, then digits, then the end
  of the line follow. A match always exists, so \<open>name[1]\<close> is always in range.
\<close>

definition isDigit :: "char \<Rightarrow> bool" where
  "isDigit c = (c \<in> set ''0123456789'')"

definition suffix_matches :: "string \<Rightarrow> bool" where
  "suffix_matches s =
     (case dropWhile isDigit (dropWhile (\<lambda>c. c = CHR ''_'') s) of
        [] \<Rightarrow> True
      | c # _ \<Rightarrow> c = newline)"

fun suffixRe_group1 :: "string \<Rightarrow> string" where
  "suffixRe_group1 [] = []"
| "suffixRe_group1 (c # cs) = (if suffix_matches (c # cs) then [] else c # suffixRe_group1 cs)"

section \<open>Reading lines\<close>

text \<open>
  \<open>bufio.Scanner\<close> with the default split function: a token is a line without its
  newline and without one trailing carriage return; a last line without newline is a
  token when it is not empty. The scanner stops, and the program ignores why, at a line
  that does not fit the buffer of \<open>MaxScanTokenSize\<close> bytes. \<open>cur\<close> holds the
  bytes of the current line in reverse.
\<close>

definition MaxScanTokenSize :: nat where
  "MaxScanTokenSize = 64 * 1024"

definition dropCR :: "string \<Rightarrow> string" where
  "dropCR data = (if data \<noteq> [] \<and> last data = carriage_return then butlast data else data)"

fun scan_tokens :: "string \<Rightarrow> string \<Rightarrow> string list" where
  "scan_tokens cur [] =
     (if cur = [] \<or> MaxScanTokenSize \<le> length cur then [] else [dropCR (rev cur)])"
| "scan_tokens cur (c # cs) =
     (if c = newline then
        (if MaxScanTokenSize \<le> length cur then [] else dropCR (rev cur) # scan_tokens [] cs)
      else scan_tokens (c # cur) cs)"

definition ScanLines :: "string \<Rightarrow> string list" where
  "ScanLines content = scan_tokens [] content"

section \<open>The filesystem interface\<close>

text \<open>
  \<open>afero.Fs\<close> is an interface. It is modelled as a record of the operations the program
  calls, over a type \<open>'fs\<close> of filesystem states. A read-only operation returns an error
  or a value; an operation that changes the filesystem returns the new state and the
  error, if any. \<open>Open\<close> gives the bytes a reader of the opened file delivers;
  \<open>Readdir\<close> stands for \<open>Open\<close> followed by \<open>Readdir(-1)\<close> and fails when
  the open fails.
\<close>

datatype fs_error = ENOENT | ENOTDIR | EISDIR | EEXIST | ENOTEMPTY | EACCES | EINVAL | EBUSY

definition IsNotExist :: "fs_error \<Rightarrow> bool" where
  "IsNotExist e = (e = ENOENT)"

record FileInfo =
  IsDir :: bool
  Size :: nat

record 'fs Fs =
  Stat :: "'fs \<Rightarrow> string \<Rightarrow> fs_error + FileInfo"
  Open :: "'fs \<Rightarrow> string \<Rightarrow> fs_error + string"
  Readdir :: "'fs \<Rightarrow> string \<Rightarrow> fs_error + string list"
  Rename :: "'fs \<Rightarrow> string \<Rightarrow> string \<Rightarrow> 'fs \<times> fs_error option"
  MkdirAll :: "'fs \<Rightarrow> string \<Rightarrow> 'fs \<times> fs_error option"
  Remove :: "'fs \<Rightarrow> string \<Rightarrow> 'fs \<times> fs_error option"

text \<open>The errors of the program: its four sentinels, filesystem errors and wrapped errors.\<close>

datatype error =
    errNoFilesFound
  | errNoFilesToMove
  | errMoveMultiple
  | errWrongTemplate
  | FsErr fs_error
  | PathDoesNotExist string
  | Wrap string error

text \<open>The helpers of afero's \<open>util.go\<close>: \<open>Exists\<close>, \<open>DirExists\<close>, \<open>IsEmpty\<close>.\<close>

definition Exists :: "'fs Fs \<Rightarrow> 'fs \<Rightarrow> string \<Rightarrow> bool \<times> fs_error option" where
  "Exists ops s path =
     (case Stat ops s path of
        Inr fi \<Rightarrow> (True, None)
      | Inl err \<Rightarrow> (if IsNotExist err then (False, None) else (False, Some err)))"

definition DirExists :: "'fs Fs \<Rightarrow> 'fs \<Rightarrow> string \<Rightarrow> bool \<times> fs_error option" where
  "DirExists ops s path =
     (case Stat ops s path of
        Inr fi \<Rightarrow> (if IsDir fi then (True, None) else (False, None))
      | Inl err \<Rightarrow> (if IsNotExist err then (False, None) else (False, Some err)))"

definition IsEmpty :: "'fs Fs \<Rightarrow> 'fs \<Rightarrow> string \<Rightarrow> bool \<times> error option" where
  "IsEmpty ops s path =
     (if \<not> fst (Exists ops s path) then (False, Some (PathDoesNotExist path))
      else
        (case Stat ops s path of
           Inl err \<Rightarrow> (False, Some (FsErr err))
         | Inr fi \<Rightarrow>
             (if IsDir fi then
                (case Readdir ops s path of
                   Inl err \<Rightarrow> (False, Some (FsErr err))
                 | Inr list \<Rightarrow> (length list = 0, None))
              else (Size fi = 0, None))))"

section \<open>Documents\<close>

text \<open>
  The struct \<open>File\<close>. Its field \<open>fs\<close> is the filesystem handle: the operations
  \<open>ops\<close> and the current state are passed to every function instead. The process-wide
  logger is the list \<open>logged\<close> of the messages printed so far.
\<close>

record File =
  Path :: string
  Title :: string
  Attachments :: "string list"

record 'fs world =
  filesys :: "'fs"
  logged :: "string list"

definition log_Printf :: "'fs world \<Rightarrow> string \<Rightarrow> 'fs world" where
  "log_Printf w msg = w\<lparr>logged := logged w @ [msg]\<rparr>"

text \<open>
  The scanning loop of \<open>NewFile\<close> over the lines of the file, then \<open>NewFile\<close>. The
  deferred \<open>file.Close()\<close> is left out: its failure only writes a log line, after the
  returned values are fixed.
\<close>

fun NewFile_scan :: "string \<Rightarrow> string list \<Rightarrow> string list \<Rightarrow> string \<times> string list" where
  "NewFile_scan title attachments [] = (title, attachments)"
| "NewFile_scan title attachments (text # rest) =
     (let title' = (if title = [] then TrimLeft (titleRe_FindString text) '' #'' else title);
          attachments' = (case imageRe_FindStringSubmatch text of
                            Some image1 \<Rightarrow> attachments @ [image1]
                          | None \<Rightarrow> attachments)
      in NewFile_scan title' attachments' rest)"

definition NewFile :: "'fs Fs \<Rightarrow> 'fs \<Rightarrow> string \<Rightarrow> error + File" where
  "NewFile ops s path =
     (case Open ops s path of
        Inl err \<Rightarrow> Inl (Wrap ''failed to open a source file'' (FsErr err))
      | Inr content \<Rightarrow>
          (case NewFile_scan [] [] (ScanLines content) of
             (title, attachments) \<Rightarrow>
               Inr \<lparr>Path = path, Title = title, Attachments = attachments\<rparr>))"


section \<open>Moving a document\<close>

definition ensureDir :: "'fs Fs \<Rightarrow> 'fs \<Rightarrow> string \<Rightarrow> 'fs \<times> error option" where
  "ensureDir ops s dest =
     (let dir = Dir dest in
      case DirExists ops s dir of
        (exists, Some err) \<Rightarrow> (s, Some (FsErr err))
      | (exists, None) \<Rightarrow>
          (if \<not> exists then
             (case MkdirAll ops s dir of
                (s', Some err) \<Rightarrow> (s', Some (Wrap ''failed to create a directory'' (FsErr err)))
              | (s', None) \<Rightarrow> (s', None))
           else (s, None)))"

text \<open>
  The attachment loop of \<open>Move\<close>: its body for one attachment, then the loop, which
  stops at the first error. \<open>dir\<close> is the directory of the document before the move:
  the assignment to \<open>f.Path\<close> is deferred to the return of \<open>Move\<close>.
\<close>

definition Move_attachment ::
  "'fs Fs \<Rightarrow> 'fs \<Rightarrow> string \<Rightarrow> string \<Rightarrow> string \<Rightarrow> 'fs \<times> error option" where
  "Move_attachment ops s dir dest attachment =
     (let destDir = Dir dest;
          attachmentDest = Join [destDir, attachment]
      in case ensureDir ops s attachmentDest of
           (s1, Some err) \<Rightarrow> (s1, Some err)
         | (s1, None) \<Rightarrow>
             (case Rename ops s1 (Join [dir, attachment]) attachmentDest of
                (s2, Some err) \<Rightarrow> (s2, Some (Wrap ''failed to move the attachment'' (FsErr err)))
              | (s2, None) \<Rightarrow> (s2, None)))"

fun Move_attachments ::
  "'fs Fs \<Rightarrow> 'fs \<Rightarrow> string \<Rightarrow> string \<Rightarrow> string list \<Rightarrow> 'fs \<times> error option" where
  "Move_attachments ops s dir dest [] = (s, None)"
| "Move_attachments ops s dir dest (attachment # rest) =
     (case Move_attachment ops s dir dest attachment of
        (s', Some err) \<Rightarrow> (s', Some err)
      | (s', None) \<Rightarrow> Move_attachments ops s' dir dest rest)"

text \<open>
  \<open>Move\<close>. Every return after the rename of the document runs the deferred
  \<open>f.Path = dest\<close>; the returns before it leave the document as it was.
\<close>

definition Move ::
  "'fs Fs \<Rightarrow> 'fs world \<Rightarrow> File \<Rightarrow> string \<Rightarrow> 'fs world \<times> File \<times> error option" where
  "Move ops w f dest =
     (let w0 = (case Exists ops (filesys w) dest of
                  (exists, err) \<Rightarrow>
                    (if exists \<and> err = None
                     then log_Printf w (''[WARN] file already exists '' @ Base dest)
                     else w))
      in case ensureDir ops (filesys w0) dest of
           (s1, Some err) \<Rightarrow> (w0\<lparr>filesys := s1\<rparr>, f, Some err)
         | (s1, None) \<Rightarrow>
             (case Rename ops s1 (Path f) dest of
                (s2, Some err) \<Rightarrow>
                  (w0\<lparr>filesys := s2\<rparr>, f, Some (Wrap ''failed to move the file'' (FsErr err)))
              | (s2, None) \<Rightarrow>
                  (let dir = Dir (Path f) in
                   if dir = Dir dest \<or> length (Attachments f) = 0
                   then (w0\<lparr>filesys := s2\<rparr>, f\<lparr>Path := dest\<rparr>, None)
                   else
                     (case Move_attachments ops s2 dir dest (Attachments f) of
                        (s3, err) \<Rightarrow> (w0\<lparr>filesys := s3\<rparr>, f\<lparr>Path := dest\<rparr>, err)))))"

text \<open>
  The body of the loop of \<open>uniqueName\<close>: the next candidate after \<open>dest\<close>, for the
  counter \<open>i\<close>.
\<close>

definition uniqueName_next :: "string \<Rightarrow> nat \<Rightarrow> string" where
  "uniqueName_next dest i =
     (let file = Base (ToLower dest);
          ext = Ext file;
          name1 = suffixRe_group1 (TrimSuffix file ext);
          file' = name1 @ ''_'' @ itoa i @ ext
      in Join [Dir dest, file'])"

text \<open>
  The loop of \<open>uniqueName\<close>. It runs as long as the candidate exists, so it is a
  partial function: \<open>None\<close> is the loop that never ends. The counter is a Go \<open>int\<close>;
  it is a \<open>nat\<close> here, the loop would need \<open>2^63\<close> existing candidates to overflow it.
\<close>

partial_function (option) uniqueName_loop ::
  "'fs Fs \<Rightarrow> 'fs world \<Rightarrow> string \<Rightarrow> nat \<Rightarrow> (string \<times> 'fs world) option" where
  "uniqueName_loop ops w dest i =
     (case Exists ops (filesys w) dest of
        (exists, err) \<Rightarrow>
          (if exists \<and> err = None then
             uniqueName_loop ops
               (if i = 1
                then log_Printf w (''[WARN] File with the same name already exists: '' @ dest)
                else w)
               (uniqueName_next dest i) (i + 1)
           else Some (dest, w)))"

declare uniqueName_loop.simps [code]

definition uniqueName :: "'fs Fs \<Rightarrow> 'fs world \<Rightarrow> string \<Rightarrow> (string \<times> 'fs world) option" where
  "uniqueName ops w dest = uniqueName_loop ops w dest 1"

text \<open>
  The attachment loop of \<open>MoveToDir\<close>: its body for one attachment (a missing
  attachment is logged and the loop continues), then the loop, which stops at the first
  error. \<open>path\<close> is \<open>f.Path\<close>, which \<open>MoveToDir\<close> never assigns.
\<close>

definition MoveToDir_attachment ::
  "'fs Fs \<Rightarrow> 'fs world \<Rightarrow> string \<Rightarrow> string \<Rightarrow> string \<Rightarrow> 'fs world \<times> error option" where
  "MoveToDir_attachment ops w path dirName attachment =
     (let src = Join [Dir path, attachment];
          dest = Join [dirName, attachment]
      in case Exists ops (filesys w) src of
           (exists, err) \<Rightarrow>
             (if \<not> exists \<and> err = None then
                (log_Printf w (''[WARN] attachment is missing: '' @ src), None)
              else
                (case ensureDir ops (filesys w) dest of
                   (s1, Some err) \<Rightarrow> (w\<lparr>filesys := s1\<rparr>, Some err)
                 | (s1, None) \<Rightarrow>
                     (case Rename ops s1 (Join [Dir path, attachment]) dest of
                        (s2, Some err) \<Rightarrow>
                          (w\<lparr>filesys := s2\<rparr>,
                           Some (Wrap ''failed to move an attachment'' (FsErr err)))
                      | (s2, None) \<Rightarrow> (w\<lparr>filesys := s2\<rparr>, None)))))"

fun MoveToDir_attachments ::
  "'fs Fs \<Rightarrow> 'fs world \<Rightarrow> string \<Rightarrow> string \<Rightarrow> string list \<Rightarrow> 'fs world \<times> error option" where
  "MoveToDir_attachments ops w path dirName [] = (w, None)"
| "MoveToDir_attachments ops w path dirName (attachment # rest) =
     (case MoveToDir_attachment ops w path dirName attachment of
        (w', Some err) \<Rightarrow> (w', Some err)
      | (w', None) \<Rightarrow> MoveToDir_attachments ops w' path dirName rest)"

definition MoveToDir ::
  "'fs Fs \<Rightarrow> 'fs world \<Rightarrow> File \<Rightarrow> string \<Rightarrow> ('fs world \<times> File \<times> error option) option" where
  "MoveToDir ops w f dirName =
     (case uniqueName ops w (Join [dirName, Base (Path f)]) of
        None \<Rightarrow> None
      | Some (dest, w0) \<Rightarrow>
          (case Rename ops (filesys w0) (Path f) dest of
             (s1, Some err) \<Rightarrow>
               Some (w0\<lparr>filesys := s1\<rparr>, f, Some (Wrap ''failed to move a file'' (FsErr err)))
           | (s1, None) \<Rightarrow>
               (if length (Attachments f) = 0 then Some (w0\<lparr>filesys := s1\<rparr>, f, None)
                else
                  (case MoveToDir_attachments ops (w0\<lparr>filesys := s1\<rparr>) (Path f) dirName
                          (Attachments f) of
                     (w1, err) \<Rightarrow> Some (w1, f, err)))))"

section \<open>Planning the moves\<close>

definition replaceTemplates :: "string \<Rightarrow> string \<Rightarrow> string" where
  "replaceTemplates tpl title =
     (let escaped = ReplaceAll_char title Separator ''_''
      in Replace1 tpl ''%title%'' escaped)"

definition isTemplate :: "string \<Rightarrow> bool \<times> error option" where
  "isTemplate path =
     (if \<not> Contains path ''%'' then (False, None)
      else if \<not> Contains path ''%title%'' then (False, Some errWrongTemplate)
      else (True, None))"

definition isDir :: "'fs Fs \<Rightarrow> 'fs \<Rightarrow> string \<Rightarrow> bool" where
  "isDir ops s path = (case Stat ops s path of Inl err \<Rightarrow> False | Inr info \<Rightarrow> IsDir info)"

text \<open>
  The two loops of \<open>moveFiles\<close> over the batch. The documents are pointers in the
  program; the loops return the batch with the documents as the moves left them. A loop
  stops at the first error.
\<close>

fun moveFiles_template ::
  "'fs Fs \<Rightarrow> 'fs world \<Rightarrow> string \<Rightarrow> File list \<Rightarrow> 'fs world \<times> File list \<times> error option" where
  "moveFiles_template ops w dest [] = (w, [], None)"
| "moveFiles_template ops w dest (file # files) =
     (case Move ops w file (replaceTemplates dest (Title file)) of
        (w', file', Some err) \<Rightarrow> (w', file' # files, Some err)
      | (w', file', None) \<Rightarrow>
          (case moveFiles_template ops w' dest files of
             (w'', files', err) \<Rightarrow> (w'', file' # files', err)))"

fun moveFiles_dir ::
  "'fs Fs \<Rightarrow> 'fs world \<Rightarrow> string \<Rightarrow> File list \<Rightarrow>
     ('fs world \<times> File list \<times> error option) option" where
  "moveFiles_dir ops w dest [] = Some (w, [], None)"
| "moveFiles_dir ops w dest (file # files) =
     (case MoveToDir ops w file dest of
        None \<Rightarrow> None
      | Some (w', file', Some err) \<Rightarrow> Some (w', file' # files, Some err)
      | Some (w', file', None) \<Rightarrow>
          (case moveFiles_dir ops w' dest files of
             None \<Rightarrow> None
           | Some (w'', files', err) \<Rightarrow> Some (w'', file' # files', err)))"

definition moveFiles ::
  "'fs Fs \<Rightarrow> 'fs world \<Rightarrow> File list \<Rightarrow> string \<Rightarrow>
     ('fs world \<times> File list \<times> error option) option" where
  "moveFiles ops w files dest =
     (if length files = 0 then Some (w, files, Some errNoFilesToMove)
      else
        (case isTemplate dest of
           (tplFound, Some err) \<Rightarrow> Some (w, files, Some err)
         | (tplFound, None) \<Rightarrow>
             (if tplFound then Some (moveFiles_template ops w dest files)
              else if isDir ops (filesys w) dest then moveFiles_dir ops w dest files
              else if length files > 1 then Some (w, files, Some errMoveMultiple)
              else
                (case Move ops w (files ! 0) dest of
                   (w', file', Some err) \<Rightarrow>
                     Some (w', files[0 := file'], Some (Wrap ''failed to move a file'' err))
                 | (w', file', None) \<Rightarrow> Some (w', files[0 := file'], None)))))"

section \<open>Cleaning up\<close>

text \<open>
  \<open>sort.Sort(sort.Reverse(sort.StringSlice(keys)))\<close>: the keys in descending order of
  their bytes.
\<close>

definition sort_Reverse :: "string list \<Rightarrow> string list" where
  "sort_Reverse keys = rev (sort keys)"

fun cleanUp_loop :: "'fs Fs \<Rightarrow> 'fs \<Rightarrow> string list \<Rightarrow> 'fs \<times> error option" where
  "cleanUp_loop ops s [] = (s, None)"
| "cleanUp_loop ops s (dir # dirs) =
     (case DirExists ops s dir of
        (exists, ignored) \<Rightarrow>
          (if \<not> exists then cleanUp_loop ops s dirs
           else
             (case IsEmpty ops s dir of
                (isempty, err) \<Rightarrow>
                  (if isempty \<and> err = None then
                     (case Remove ops s dir of
                        (s', Some err') \<Rightarrow>
                          (s', Some (Wrap ''failed to clean up a dir'' (FsErr err')))
                      | (s', None) \<Rightarrow> cleanUp_loop ops s' dirs)
                   else
                     (case err of
                        Some e \<Rightarrow> (s, Some (Wrap ''failed to check if dir is empty'' e))
                      | None \<Rightarrow> cleanUp_loop ops s dirs)))))"

definition cleanUp :: "'fs Fs \<Rightarrow> 'fs \<Rightarrow> string list \<Rightarrow> 'fs \<times> error option" where
  "cleanUp ops s keys = cleanUp_loop ops s (sort_Reverse keys)"


section \<open>A reference filesystem\<close>

text \<open>
  An implementation of the interface, used to run the program on concrete trees: a
  finite table from cleaned paths to nodes, with the rules of a POSIX directory tree (the
  parent of an entry is a directory of the table) and neither permissions, links nor
  input/output failures. The paths \<open>.\<close> and \<open>/\<close> always name directories.
\<close>

datatype node = RegularFile string | Directory

type_synonym memfs = "(string \<times> node) list"

definition is_root :: "string \<Rightarrow> bool" where
  "is_root c = (c = ''.'' \<or> c = ''/'')"

definition mem_node :: "memfs \<Rightarrow> string \<Rightarrow> node option" where
  "mem_node s c = (if is_root c then Some Directory else map_of s c)"

definition mem_del :: "string \<Rightarrow> memfs \<Rightarrow> memfs" where
  "mem_del c s = filter (\<lambda>kv. fst kv \<noteq> c) s"

definition mem_put :: "string \<Rightarrow> node \<Rightarrow> memfs \<Rightarrow> memfs" where
  "mem_put c n s = (c, n) # mem_del c s"

definition mem_children :: "memfs \<Rightarrow> string \<Rightarrow> string list" where
  "mem_children s c = filter (\<lambda>k. k \<noteq> c \<and> Dir k = c) (map fst s)"

definition mem_info :: "node \<Rightarrow> FileInfo" where
  "mem_info n =
     (case n of
        RegularFile content \<Rightarrow> \<lparr>IsDir = False, Size = length content\<rparr>
      | Directory \<Rightarrow> \<lparr>IsDir = True, Size = 0\<rparr>)"

text \<open>The path and its ancestors, topmost first.\<close>

primrec path_chain :: "nat \<Rightarrow> string \<Rightarrow> string list" where
  "path_chain 0 c = [c]"
| "path_chain (Suc n) c = (if Dir c = c then [c] else path_chain n (Dir c) @ [c])"

text \<open>
  The error for a path that is not in the table, found by walking down its ancestors: a
  missing one gives \<open>ENOENT\<close>, a regular file on the way gives \<open>ENOTDIR\<close>.
\<close>

fun mem_walk :: "memfs \<Rightarrow> string list \<Rightarrow> fs_error" where
  "mem_walk s [] = ENOENT"
| "mem_walk s (a # ancestors) =
     (case mem_node s a of
        None \<Rightarrow> ENOENT
      | Some (RegularFile content) \<Rightarrow> ENOTDIR
      | Some Directory \<Rightarrow> mem_walk s ancestors)"

definition mem_lookup :: "memfs \<Rightarrow> string \<Rightarrow> fs_error + node" where
  "mem_lookup s c =
     (case mem_node s c of
        Some n \<Rightarrow> Inr n
      | None \<Rightarrow> Inl (mem_walk s (butlast (path_chain (length c) c))))"

definition mem_Stat :: "memfs \<Rightarrow> string \<Rightarrow> fs_error + FileInfo" where
  "mem_Stat s path =
     (case mem_lookup s (Clean path) of Inl err \<Rightarrow> Inl err | Inr n \<Rightarrow> Inr (mem_info n))"

definition mem_Open :: "memfs \<Rightarrow> string \<Rightarrow> fs_error + string" where
  "mem_Open s path =
     (case mem_lookup s (Clean path) of
        Inl err \<Rightarrow> Inl err
      | Inr (RegularFile content) \<Rightarrow> Inr content
      | Inr Directory \<Rightarrow> Inr [])"

definition mem_Readdir :: "memfs \<Rightarrow> string \<Rightarrow> fs_error + string list" where
  "mem_Readdir s path =
     (case mem_lookup s (Clean path) of
        Inl err \<Rightarrow> Inl err
      | Inr (RegularFile content) \<Rightarrow> Inl ENOTDIR
      | Inr Directory \<Rightarrow> Inr (map Base (mem_children s (Clean path))))"

definition inside :: "string \<Rightarrow> string \<Rightarrow> bool" where
  "inside d k = prefix (d @ [Separator]) k"

definition move_tree :: "string \<Rightarrow> string \<Rightarrow> memfs \<Rightarrow> memfs" where
  "move_tree cx cy s =
     map (\<lambda>kv. (if fst kv = cx then cy
                 else if inside cx (fst kv) then cy @ drop (length cx) (fst kv)
                 else fst kv, snd kv))
       (mem_del cy s)"

text \<open>The system call \<open>rename\<close>, on cleaned paths.\<close>

definition mem_rename :: "memfs \<Rightarrow> string \<Rightarrow> string \<Rightarrow> memfs \<times> fs_error option" where
  "mem_rename s cx cy =
     (case mem_lookup s cx of
        Inl err \<Rightarrow> (s, Some err)
      | Inr n \<Rightarrow>
          (if is_root cx \<or> is_root cy then (s, Some EBUSY)
           else if cx = cy then (s, None)
           else
             (case mem_lookup s (Dir cy) of
                Inl err \<Rightarrow> (s, Some err)
              | Inr (RegularFile c) \<Rightarrow> (s, Some ENOTDIR)
              | Inr Directory \<Rightarrow>
                  (case n of
                     RegularFile content \<Rightarrow>
                       (case mem_node s cy of
                          Some Directory \<Rightarrow> (s, Some EISDIR)
                        | Some (RegularFile c) \<Rightarrow> (mem_put cy n (mem_del cx s), None)
                        | None \<Rightarrow> (mem_put cy n (mem_del cx s), None))
                   | Directory \<Rightarrow>
                       (if inside cx cy then (s, Some EINVAL)
                        else
                          (case mem_node s cy of
                             Some (RegularFile c) \<Rightarrow> (s, Some ENOTDIR)
                           | Some Directory \<Rightarrow>
                               (if mem_children s cy \<noteq> [] then (s, Some ENOTEMPTY)
                                else (move_tree cx cy s, None))
                           | None \<Rightarrow> (move_tree cx cy s, None)))))))"

text \<open>
  \<open>os.Rename\<close>, which \<open>afero.OsFs\<close> calls: when the new name is an existing
  directory, the error of the old name if it has one, else \<open>EEXIST\<close> unless both names
  are different spellings of the same directory; in every other case the system call.
\<close>

definition mem_Rename :: "memfs \<Rightarrow> string \<Rightarrow> string \<Rightarrow> memfs \<times> fs_error option" where
  "mem_Rename s oldname newname =
     (let cx = Clean oldname; cy = Clean newname in
      if mem_node s cy = Some Directory then
        (case mem_lookup s cx of
           Inl err \<Rightarrow> (s, Some err)
         | Inr n \<Rightarrow>
             (if newname \<noteq> oldname \<and> cx = cy then mem_rename s cx cy
              else (s, Some EEXIST)))
      else mem_rename s cx cy)"

fun mem_mkdirs :: "memfs \<Rightarrow> string list \<Rightarrow> memfs \<times> fs_error option" where
  "mem_mkdirs s [] = (s, None)"
| "mem_mkdirs s (c # cs) =
     (case mem_node s c of
        None \<Rightarrow> mem_mkdirs (mem_put c Directory s) cs
      | Some Directory \<Rightarrow> mem_mkdirs s cs
      | Some (RegularFile content) \<Rightarrow> (s, Some ENOTDIR))"

definition mem_MkdirAll :: "memfs \<Rightarrow> string \<Rightarrow> memfs \<times> fs_error option" where
  "mem_MkdirAll s path = mem_mkdirs s (path_chain (length path) (Clean path))"

definition mem_Remove :: "memfs \<Rightarrow> string \<Rightarrow> memfs \<times> fs_error option" where
  "mem_Remove s path =
     (let c = Clean path in
      case mem_lookup s c of
        Inl err \<Rightarrow> (s, Some err)
      | Inr n \<Rightarrow>
          (if is_root c then (s, Some EBUSY)
           else if n = Directory \<and> mem_children s c \<noteq> [] then (s, Some ENOTEMPTY)
           else (mem_del c s, None)))"

definition memfs_ops :: "memfs Fs" where
  "memfs_ops =
     \<lparr>Stat = mem_Stat, Open = mem_Open, Readdir = mem_Readdir,
      Rename = mem_Rename, MkdirAll = mem_MkdirAll, Remove = mem_Remove\<rparr>"


section \<open>Notions used by the properties\<close>

text \<open>The value that line 47 of \<open>NewFile\<close> assigns to the title for a line.\<close>

definition heading_text :: "string \<Rightarrow> string" where
  "heading_text text = TrimLeft (titleRe_FindString text) '' #''"

text \<open>
  The title as the specification words it: the first line with a heading (a \<open>#\<close>),
  its leading \<open>#\<close> markers and the surrounding whitespace stripped.
\<close>

definition isSpace :: "char \<Rightarrow> bool" where
  "isSpace c = (c = CHR '' '' \<or> c = CHR 0x09 \<or> c = carriage_return)"

definition spec_title :: "string list \<Rightarrow> string" where
  "spec_title lines =
     (case find (\<lambda>l. CHR ''#'' \<in> set l) lines of
        None \<Rightarrow> []
      | Some l \<Rightarrow>
          (let t = dropWhile (\<lambda>c. c = CHR ''#'') (dropWhile (\<lambda>c. c \<noteq> CHR ''#'') l)
           in rev (dropWhile isSpace (rev (dropWhile isSpace t)))))"

text \<open>
  The candidates of \<open>uniqueName\<close>: \<open>candidate_from dest i n\<close> is the name the loop
  holds after \<open>n\<close> rounds when it starts at \<open>dest\<close> with the counter \<open>i\<close>.
\<close>

fun candidate_from :: "string \<Rightarrow> nat \<Rightarrow> nat \<Rightarrow> string" where
  "candidate_from dest i 0 = dest"
| "candidate_from dest i (Suc n) = candidate_from (uniqueName_next dest i) (Suc i) n"

text \<open>
  On a reversed stem: the leading digits, then the leading underscores, removed.
\<close>

definition strip_tail :: "string \<Rightarrow> string" where
  "strip_tail r = dropWhile (\<lambda>c. c = CHR ''_'') (dropWhile isDigit r)"

text \<open>
  The next name as the specification words it: the suffix \<open>_i\<close> goes before the
  extension of the base name, after a trailing group of an underscore and digits has
  been removed from the stem.
\<close>

definition spec_strip_suffix :: "string \<Rightarrow> string" where
  "spec_strip_suffix stem =
     (let digits = takeWhile isDigit (rev stem);
          r = drop (length digits) (rev stem)
      in if digits \<noteq> [] \<and> r \<noteq> [] \<and> hd r = CHR ''_'' then rev (tl r) else stem)"

definition spec_next_name :: "string \<Rightarrow> nat \<Rightarrow> string" where
  "spec_next_name dest i =
     (let file = Base dest;
          ext = Ext file
      in Join [Dir dest, spec_strip_suffix (TrimSuffix file ext) @ ''_'' @ itoa i @ ext])"




text \<open>
  The reference filesystem with three faults: the status of \<open>locked\<close> is refused,
  \<open>unreadable\<close> cannot be opened for listing, \<open>pinned\<close> cannot be removed.
\<close>

definition faulty_ops :: "memfs Fs" where
  "faulty_ops =
     \<lparr>Stat = (\<lambda>s path. if Clean path = ''locked'' then Inl EACCES else mem_Stat s path),
      Open = mem_Open,
      Readdir = (\<lambda>s path. if Clean path = ''unreadable'' then Inl EACCES
                            else mem_Readdir s path),
      Rename = mem_Rename,
      MkdirAll = mem_MkdirAll,
      Remove = (\<lambda>s path. if Clean path = ''pinned'' then (s, Some EACCES)
                           else mem_Remove s path)\<rparr>"

section \<open>Concrete trees and documents\<close>

text \<open>A document whose only image reference is missing on disk, next to a directory.\<close>

definition sample_tree :: memfs where
  "sample_tree =
     [(''sample.md'', RegularFile ''# Sample file for testing purpose''),
      (''folder'', Directory)]"

definition sample_doc :: File where
  "sample_doc =
     \<lparr>Path = ''sample.md'', Title = ''Sample file for testing purpose'',
      Attachments = [''images/sample.png'']\<rparr>"

text \<open>The same document when the directory already holds a file of its name.\<close>

definition taken_tree :: memfs where
  "taken_tree =
     [(''sample.md'', RegularFile ''# Sample file for testing purpose''),
      (''folder'', Directory),
      (''folder/sample.md'', RegularFile ''# Older'')]"

text \<open>The note of the README, with its image, and a directory to move it to.\<close>

definition note_tree :: memfs where
  "note_tree =
     [(''notes'', Directory),
      (''notes/note1.md'', RegularFile ''# My personal note''),
      (''notes/images'', Directory),
      (''notes/images/image1.png'', RegularFile ''PNG''),
      (''content'', Directory)]"

definition note_doc :: File where
  "note_doc =
     \<lparr>Path = ''notes/note1.md'', Title = ''My personal note'',
      Attachments = [''images/image1.png'']\<rparr>"



text \<open>Three documents with the same file name, and a directory to move them to.\<close>

definition index_tree :: memfs where
  "index_tree =
     [(''folder'', Directory),
      (''folder1'', Directory),
      (''folder2'', Directory),
      (''folder3'', Directory),
      (''folder1/index.md'', RegularFile ''# One''),
      (''folder2/index.md'', RegularFile ''# Two''),
      (''folder3/index.md'', RegularFile ''# Three'')]"

definition index_docs :: "File list" where
  "index_docs =
     [\<lparr>Path = ''folder1/index.md'', Title = ''One'', Attachments = []\<rparr>,
      \<lparr>Path = ''folder2/index.md'', Title = ''Two'', Attachments = []\<rparr>,
      \<lparr>Path = ''folder3/index.md'', Title = ''Three'', Attachments = []\<rparr>]"

text \<open>Two documents named \<open>Index.md\<close>, one of them already in the target directory.\<close>

definition capital_tree :: memfs where
  "capital_tree =
     [(''folder'', Directory),
      (''folder/Index.md'', RegularFile ''# Old''),
      (''Index.md'', RegularFile ''# New'')]"

definition capital_doc :: File where
  "capital_doc = \<lparr>Path = ''Index.md'', Title = ''New'', Attachments = []\<rparr>"

text \<open>A document whose name ends in digits, and a directory that holds one of that name.\<close>

definition digits_tree :: memfs where
  "digits_tree =
     [(''inbox'', Directory),
      (''inbox/notes2024.md'', RegularFile ''# New''),
      (''folder'', Directory),
      (''folder/notes2024.md'', RegularFile ''# Old'')]"

definition digits_doc :: File where
  "digits_doc = \<lparr>Path = ''inbox/notes2024.md'', Title = ''New'', Attachments = []\<rparr>"

text \<open>
  A document that refers to an image below \<open>cover.png\<close>, which is a regular file:
  nothing is, and nothing can be, at \<open>notes/cover.png/small.png\<close>.
\<close>

definition cover_tree :: memfs where
  "cover_tree =
     [(''notes'', Directory),
      (''notes/n.md'', RegularFile ''# N''),
      (''notes/cover.png'', RegularFile ''PNG''),
      (''folder'', Directory)]"

definition cover_doc :: File where
  "cover_doc = \<lparr>Path = ''notes/n.md'', Title = ''N'', Attachments = [''cover.png/small.png'']\<rparr>"

text \<open>Directories for the cleanup: nested empty ones, one with a file, and the faults.\<close>

definition sweep_tree :: memfs where
  "sweep_tree =
     [(''d'', Directory),
      (''d/e'', Directory),
      (''keep'', Directory),
      (''keep/x.md'', RegularFile ''x''),
      (''locked'', Directory),
      (''unreadable'', Directory),
      (''pinned'', Directory)]"

definition start :: "'fs \<Rightarrow> 'fs world" where
  "start s = \<lparr>filesys = s, logged = []\<rparr>"

section \<open>Properties\<close>

lemma Contains_char: "Contains s [c] \<longleftrightarrow> c \<in> set s"
proof (induction s)
  case Nil
  then show ?case by (simp add: Contains_def)
next
  case (Cons a s)
  then show ?case by (auto simp add: Contains_def sublist_Cons_right)
qed

subsection \<open>Invalid template\<close>

text \<open>
  C4. For a non-empty batch and a destination that contains a \<open>%\<close> but not the
  placeholder \<open>%title%\<close>, \<open>moveFiles\<close> returns the error "incorrect template in
  the destination path"; the filesystem, the log and the documents are as before, so no
  file has been moved.
\<close>

theorem moveFiles_wrong_template:
  assumes "files \<noteq> []"
    and "CHR ''%'' \<in> set dest"
    and "\<not> Contains dest ''%title%''"
  shows "moveFiles ops w files dest = Some (w, files, Some errWrongTemplate)"
  using assms by (simp add: moveFiles_def isTemplate_def Contains_char)

theorem moveFiles_wrong_template_witness:
  "[sample_doc] \<noteq> [] \<and> CHR ''%'' \<in> set ''%name%/README.md'' \<and>
   \<not> Contains ''%name%/README.md'' ''%title%'' \<and>
   moveFiles memfs_ops (start sample_tree) [sample_doc] ''%name%/README.md'' =
     Some (start sample_tree, [sample_doc], Some errWrongTemplate)"
proof -
  have h: "\<not> Contains ''%name%/README.md'' ''%title%''"
    by (simp add: Contains_def sublist_code)
  show ?thesis
    using moveFiles_wrong_template [of "[sample_doc]" "''%name%/README.md''" memfs_ops
        "start sample_tree"] h
    by simp
qed

subsection \<open>Literal destination\<close>

text \<open>
  C5. For a destination without \<open>%\<close> that does not name an existing directory: a
  batch of two or more documents fails with "specify an existing directory as a
  destination for multiple markdown files" and nothing is moved; a batch of exactly one
  document is the literal \<open>Move\<close> of that document to the destination, whose error, if
  any, is wrapped.
\<close>

theorem moveFiles_literal_destination:
  assumes "CHR ''%'' \<notin> set dest"
    and "\<not> isDir ops (filesys w) dest"
  shows "(2 \<le> length files \<longrightarrow>
            moveFiles ops w files dest = Some (w, files, Some errMoveMultiple)) \<and>
         moveFiles ops w [f] dest =
           (case Move ops w f dest of
              (w', f', None) \<Rightarrow> Some (w', [f'], None)
            | (w', f', Some err) \<Rightarrow>
                Some (w', [f'], Some (Wrap ''failed to move a file'' err)))"
  using assms
  by (auto simp add: moveFiles_def isTemplate_def Contains_char split: prod.splits option.splits)

theorem moveFiles_literal_destination_witness:
  "CHR ''%'' \<notin> set ''dest.md'' \<and>
   \<not> isDir memfs_ops (filesys (start sample_tree)) ''dest.md'' \<and>
   moveFiles memfs_ops (start sample_tree) [sample_doc, sample_doc] ''dest.md'' =
     Some (start sample_tree, [sample_doc, sample_doc], Some errMoveMultiple) \<and>
   moveFiles memfs_ops (start sample_tree) [sample_doc] ''dest.md'' =
     Some (start [(''dest.md'', RegularFile ''# Sample file for testing purpose''),
                  (''folder'', Directory)],
           [sample_doc\<lparr>Path := ''dest.md''\<rparr>], None)"
proof -
  have h1: "CHR ''%'' \<notin> set ''dest.md''"
    by simp
  have h2: "\<not> isDir memfs_ops (filesys (start sample_tree)) ''dest.md''"
    by code_simp
  have m: "Move memfs_ops (start sample_tree) sample_doc ''dest.md'' =
             (start [(''dest.md'', RegularFile ''# Sample file for testing purpose''),
                     (''folder'', Directory)],
              sample_doc\<lparr>Path := ''dest.md''\<rparr>, None)"
    by code_simp
  show ?thesis
    using moveFiles_literal_destination [OF h1 h2, of "[sample_doc, sample_doc]" sample_doc]
      h1 h2
    by (simp add: m)
qed

subsection \<open>The stored path after a partial move\<close>

text \<open>
  C10. Once \<open>Move\<close> has created the destination directory and renamed the document,
  the document it returns has its path set to the destination, whatever happens to the
  attachments afterwards: also when \<open>Move\<close> returns the error of a failed attachment
  rename or of a failed directory creation for an attachment.
\<close>

theorem Move_path_set_after_rename:
  assumes "ensureDir ops (filesys w) dest = (s1, None)"
    and "Rename ops s1 (Path f) dest = (s2, None)"
    and "Move ops w f dest = (w', f', err)"
  shows "Path f' = dest"
  using assms
  by (auto simp add: Move_def Let_def log_Printf_def split: prod.splits option.splits if_splits)

theorem Move_path_set_after_rename_witness:
  "Move memfs_ops (start sample_tree) sample_doc ''folder/sample.md'' =
     (start [(''folder/images'', Directory),
             (''folder/sample.md'', RegularFile ''# Sample file for testing purpose''),
             (''folder'', Directory)],
      sample_doc\<lparr>Path := ''folder/sample.md''\<rparr>,
      Some (Wrap ''failed to move the attachment'' (FsErr ENOENT))) \<and>
   Path (sample_doc\<lparr>Path := ''folder/sample.md''\<rparr>) = ''folder/sample.md''"
proof -
  have h1: "ensureDir memfs_ops (filesys (start sample_tree)) ''folder/sample.md'' =
              (sample_tree, None)"
    by code_simp
  have h2: "Rename memfs_ops sample_tree (Path sample_doc) ''folder/sample.md'' =
              ([(''folder/sample.md'', RegularFile ''# Sample file for testing purpose''),
                (''folder'', Directory)], None)"
    by code_simp
  have m: "Move memfs_ops (start sample_tree) sample_doc ''folder/sample.md'' =
     (start [(''folder/images'', Directory),
             (''folder/sample.md'', RegularFile ''# Sample file for testing purpose''),
             (''folder'', Directory)],
      sample_doc\<lparr>Path := ''folder/sample.md''\<rparr>,
      Some (Wrap ''failed to move the attachment'' (FsErr ENOENT)))"
    by code_simp
  show ?thesis
    using Move_path_set_after_rename [OF h1 h2 m] m by simp
qed


subsection \<open>Template destination\<close>

lemma Contains_title_percent: "Contains dest ''%title%'' \<Longrightarrow> CHR ''%'' \<in> set dest"
proof -
  assume "Contains dest ''%title%''"
  then obtain ps ss where "dest = ps @ ''%title%'' @ ss"
    by (auto simp add: Contains_def sublist_def)
  then show ?thesis by simp
qed

lemma Replace1_first:
  assumes "old \<noteq> []"
    and "\<not> Contains (pre @ butlast old) old"
  shows "Replace1 (pre @ old @ post) old new = pre @ new @ post"
  using assms
proof (induction pre)
  case Nil
  then obtain c cs where "old @ post = c # cs"
    by (cases "old @ post") auto
  then show ?case by (metis Replace1.simps(2) append_Nil append_eq_conv_conj prefixI)
next
  case (Cons p ps)
  have np: "\<not> prefix old (p # ps @ old @ post)"
  proof
    assume pr: "prefix old (p # ps @ old @ post)"
    have len: "length old \<le> length ((p # ps) @ butlast old)"
      using Cons.prems(1) by (cases old rule: rev_cases) auto
    have "old = take (length old) (p # ps @ old @ post)"
      using pr by (metis append_eq_conv_conj prefixE)
    also have "p # ps @ old @ post = ((p # ps) @ butlast old) @ (last old # post)"
      using Cons.prems(1) by (cases old rule: rev_cases) auto
    also have "take (length old) \<dots> = take (length old) ((p # ps) @ butlast old)"
      using len by (simp only: take_append) simp
    finally have "prefix old ((p # ps) @ butlast old)"
      by (metis take_is_prefix)
    then show False
      using Cons.prems(2) by (auto simp add: Contains_def)
  qed
  have "\<not> Contains (ps @ butlast old) old"
    using Cons.prems(2) by (auto simp add: Contains_def sublist_Cons_right)
  with Cons.IH Cons.prems(1) have "Replace1 (ps @ old @ post) old new = ps @ new @ post"
    by simp
  with np show ?case by simp
qed

lemma first_occurrence:
  assumes "old \<noteq> []"
  shows "Contains s old \<Longrightarrow>
         \<exists>pre post. s = pre @ old @ post \<and> \<not> Contains (pre @ butlast old) old"
proof (induction s)
  case Nil
  with assms show ?case by (simp add: Contains_def)
next
  case (Cons c cs)
  have short: "\<not> Contains (butlast old) old"
  proof
    assume "Contains (butlast old) old"
    then obtain ps ss where "butlast old = ps @ old @ ss"
      by (auto simp add: Contains_def sublist_def)
    then have "length (butlast old) = length (ps @ old @ ss)"
      by simp
    then have "length old \<le> length (butlast old)"
      by simp
    with assms show False by (cases old rule: rev_cases) simp_all
  qed
  show ?case
  proof (cases "prefix old (c # cs)")
    case True
    then obtain post where "c # cs = old @ post"
      by (auto simp add: prefix_def)
    with short have "c # cs = [] @ old @ post \<and> \<not> Contains ([] @ butlast old) old"
      by simp
    then show ?thesis by (intro exI)
  next
    case False
    with Cons.prems have "Contains cs old"
      by (simp add: Contains_def sublist_Cons_right)
    from Cons.IH [OF this] obtain pre post
      where d: "cs = pre @ old @ post" and n: "\<not> Contains (pre @ butlast old) old"
      by blast
    have "\<not> prefix old (c # pre @ butlast old)"
    proof
      assume "prefix old (c # pre @ butlast old)"
      moreover have "prefix (c # pre @ butlast old) (c # cs)"
        using d assms by (cases old rule: rev_cases) simp_all
      ultimately have "prefix old (c # cs)"
        by (rule prefix_order.trans)
      with False show False by simp
    qed
    with n have "\<not> Contains ((c # pre) @ butlast old) old"
      by (simp add: Contains_def sublist_Cons_right)
    with d have "c # cs = (c # pre) @ old @ post \<and> \<not> Contains ((c # pre) @ butlast old) old"
      by simp
    then show ?thesis by (intro exI)
  qed
qed

lemma ReplaceAll_char_map:
  "ReplaceAll_char s c [d] = map (\<lambda>x. if x = c then d else x) s"
  by (induction s) (auto simp add: ReplaceAll_char_def)

lemma Move_success_file:
  "Move ops w f dest = (w', f', None) \<Longrightarrow> f' = f\<lparr>Path := dest\<rparr>"
  by (auto simp add: Move_def Let_def split: prod.splits option.splits if_splits)

lemma moveFiles_template_success:
  "moveFiles_template ops w dest files = (w', files', None) \<Longrightarrow>
   files' = map (\<lambda>f. f\<lparr>Path := replaceTemplates dest (Title f)\<rparr>) files"
proof (induction files arbitrary: w w' files')
  case Nil
  then show ?case by simp
next
  case (Cons f fs)
  then show ?case
    by (auto split: prod.splits option.splits dest: Move_success_file)
qed

text \<open>
  C3, as the code has it. For a non-empty batch and a destination that contains
  \<open>%title%\<close>, \<open>moveFiles\<close> is the loop that moves each document, in order and
  until the first error, by the literal \<open>Move\<close> to \<open>replaceTemplates dest title\<close>;
  after a batch without error every document is at its own substituted path. The
  substitution puts the title, every \<open>/\<close> of it replaced by \<open>_\<close>, in the place of
  the first occurrence of \<open>%title%\<close>, and leaves the rest of the destination as it is,
  a further \<open>%title%\<close> included (\<open>strings.Replace\<close> is called with the count 1);
  \<open>%title%/README.md\<close> and the title "Sample file for testing purpose" give
  \<open>Sample file for testing purpose/README.md\<close>.
\<close>

theorem moveFiles_template_destination:
  "(files \<noteq> [] \<longrightarrow> Contains dest ''%title%'' \<longrightarrow>
      moveFiles ops w files dest = Some (moveFiles_template ops w dest files)) \<and>
   moveFiles_template ops w dest (f # rest) =
     (case Move ops w f (replaceTemplates dest (Title f)) of
        (w', f', Some err) \<Rightarrow> (w', f' # rest, Some err)
      | (w', f', None) \<Rightarrow>
          (case moveFiles_template ops w' dest rest of
             (w'', rest', err) \<Rightarrow> (w'', f' # rest', err))) \<and>
   (moveFiles_template ops w dest files = (w1, files1, None) \<longrightarrow>
      files1 = map (\<lambda>f. f\<lparr>Path := replaceTemplates dest (Title f)\<rparr>) files) \<and>
   (\<not> Contains (pre @ ''%title'') ''%title%'' \<longrightarrow>
      replaceTemplates (pre @ ''%title%'' @ post) title =
        pre @ map (\<lambda>c. if c = CHR ''/'' then CHR ''_'' else c) title @ post) \<and>
   (Contains dest ''%title%'' \<longrightarrow>
      (\<exists>before after.
         dest = before @ ''%title%'' @ after \<and>
         \<not> Contains (before @ ''%title'') ''%title%'' \<and>
         replaceTemplates dest title =
           before @ map (\<lambda>c. if c = CHR ''/'' then CHR ''_'' else c) title @ after)) \<and>
   replaceTemplates ''%title%/README.md'' ''Sample file for testing purpose'' =
     ''Sample file for testing purpose/README.md''"
proof (intro conjI impI)
  assume "files \<noteq> []" and c: "Contains dest ''%title%''"
  then show "moveFiles ops w files dest = Some (moveFiles_template ops w dest files)"
    using Contains_title_percent [OF c]
    by (simp add: moveFiles_def isTemplate_def Contains_char)
next
  show "moveFiles_template ops w dest (f # rest) =
     (case Move ops w f (replaceTemplates dest (Title f)) of
        (w', f', Some err) \<Rightarrow> (w', f' # rest, Some err)
      | (w', f', None) \<Rightarrow>
          (case moveFiles_template ops w' dest rest of
             (w'', rest', err) \<Rightarrow> (w'', f' # rest', err)))"
    by (simp split: prod.splits option.splits)
next
  assume "moveFiles_template ops w dest files = (w1, files1, None)"
  then show "files1 = map (\<lambda>f. f\<lparr>Path := replaceTemplates dest (Title f)\<rparr>) files"
    by (rule moveFiles_template_success)
next
  assume "\<not> Contains (pre @ ''%title'') ''%title%''"
  then have "Replace1 (pre @ ''%title%'' @ post) ''%title%'' new = pre @ new @ post" for new
    using Replace1_first [of "''%title%''" pre post new] by simp
  then show "replaceTemplates (pre @ ''%title%'' @ post) title =
        pre @ map (\<lambda>c. if c = CHR ''/'' then CHR ''_'' else c) title @ post"
    by (simp add: replaceTemplates_def ReplaceAll_char_map Separator_def)
next
  assume "Contains dest ''%title%''"
  then obtain before after
    where d: "dest = before @ ''%title%'' @ after"
      and n: "\<not> Contains (before @ butlast ''%title%'') ''%title%''"
    using first_occurrence [of "''%title%''" dest] by auto
  from n have n': "\<not> Contains (before @ ''%title'') ''%title%''"
    by simp
  then have "Replace1 (before @ ''%title%'' @ after) ''%title%'' new = before @ new @ after"
    for new
    using Replace1_first [of "''%title%''" before after new] by simp
  then have "replaceTemplates dest title =
        before @ map (\<lambda>c. if c = CHR ''/'' then CHR ''_'' else c) title @ after"
    by (simp add: d replaceTemplates_def ReplaceAll_char_map Separator_def)
  with d n' have "dest = before @ ''%title%'' @ after \<and>
         \<not> Contains (before @ ''%title'') ''%title%'' \<and>
         replaceTemplates dest title =
           before @ map (\<lambda>c. if c = CHR ''/'' then CHR ''_'' else c) title @ after"
    by simp
  then show "\<exists>before after.
         dest = before @ ''%title%'' @ after \<and>
         \<not> Contains (before @ ''%title'') ''%title%'' \<and>
         replaceTemplates dest title =
           before @ map (\<lambda>c. if c = CHR ''/'' then CHR ''_'' else c) title @ after"
    by (intro exI)
next
  show "replaceTemplates ''%title%/README.md'' ''Sample file for testing purpose'' =
     ''Sample file for testing purpose/README.md''"
    by code_simp
qed

theorem moveFiles_template_destination_witness:
  "[note_doc] \<noteq> [] \<and> Contains ''content/%title%/README.md'' ''%title%'' \<and>
   \<not> Contains (''content/'' @ ''%title'') ''%title%'' \<and>
   moveFiles memfs_ops (start note_tree) [note_doc] ''content/%title%/README.md'' =
     Some (start [(''content/My personal note/images/image1.png'', RegularFile ''PNG''),
                  (''content/My personal note/images'', Directory),
                  (''content/My personal note/README.md'', RegularFile ''# My personal note''),
                  (''content/My personal note'', Directory),
                  (''notes'', Directory),
                  (''notes/images'', Directory),
                  (''content'', Directory)],
           [note_doc\<lparr>Path := ''content/My personal note/README.md''\<rparr>], None) \<and>
   replaceTemplates ''content/%title%/README.md'' ''My personal note'' =
     ''content/My personal note/README.md''"
proof -
  let ?dest = "''content/%title%/README.md''"
  let ?tree = "[(''content/My personal note/images/image1.png'', RegularFile ''PNG''),
                (''content/My personal note/images'', Directory),
                (''content/My personal note/README.md'', RegularFile ''# My personal note''),
                (''content/My personal note'', Directory),
                (''notes'', Directory),
                (''notes/images'', Directory),
                (''content'', Directory)]"
  note T = moveFiles_template_destination [of "[note_doc]" ?dest memfs_ops "start note_tree"
      note_doc "[]" "start ?tree" "[note_doc\<lparr>Path := ''content/My personal note/README.md''\<rparr>]"
      "''content/''" "''/README.md''" "''My personal note''"]
  have c: "Contains ?dest ''%title%''"
    by (simp add: Contains_def sublist_code)
  have n: "\<not> Contains (''content/'' @ ''%title'') ''%title%''"
    by (simp add: Contains_def sublist_code)
  have m: "moveFiles_template memfs_ops (start note_tree) ?dest [note_doc] =
             (start ?tree, [note_doc\<lparr>Path := ''content/My personal note/README.md''\<rparr>], None)"
    by code_simp
  have r: "replaceTemplates ?dest ''My personal note'' = ''content/My personal note/README.md''"
    using T n by simp
  have "moveFiles memfs_ops (start note_tree) [note_doc] ?dest =
          Some (moveFiles_template memfs_ops (start note_tree) ?dest [note_doc])"
    using T c by simp
  with m c n r show ?thesis by simp
qed

text \<open>
  C3 as stated fails on a destination with two placeholders: the second one is not
  substituted. The note of the README moved to \<open>content/%title%/%title%.md\<close> ends at
  \<open>content/My personal note/%title%.md\<close>, a path that still contains the
  placeholder.
\<close>

theorem moveFiles_template_destination_counterexample:
  "Contains ''content/%title%/%title%.md'' ''%title%'' \<and>
   moveFiles memfs_ops (start note_tree) [note_doc] ''content/%title%/%title%.md'' =
     Some (start [(''content/My personal note/images/image1.png'', RegularFile ''PNG''),
                  (''content/My personal note/images'', Directory),
                  (''content/My personal note/%title%.md'', RegularFile ''# My personal note''),
                  (''content/My personal note'', Directory),
                  (''notes'', Directory),
                  (''notes/images'', Directory),
                  (''content'', Directory)],
           [note_doc\<lparr>Path := ''content/My personal note/%title%.md''\<rparr>], None) \<and>
   Contains ''content/My personal note/%title%.md'' ''%title%''"
proof (intro conjI)
  show "Contains ''content/%title%/%title%.md'' ''%title%''"
    by (simp add: Contains_def sublist_code)
next
  show "moveFiles memfs_ops (start note_tree) [note_doc] ''content/%title%/%title%.md'' =
     Some (start [(''content/My personal note/images/image1.png'', RegularFile ''PNG''),
                  (''content/My personal note/images'', Directory),
                  (''content/My personal note/%title%.md'', RegularFile ''# My personal note''),
                  (''content/My personal note'', Directory),
                  (''notes'', Directory),
                  (''notes/images'', Directory),
                  (''content'', Directory)],
           [note_doc\<lparr>Path := ''content/My personal note/%title%.md''\<rparr>], None)"
    by code_simp
next
  show "Contains ''content/My personal note/%title%.md'' ''%title%''"
    by (simp add: Contains_def sublist_code)
qed

subsection \<open>The title of a document\<close>

lemma scan_title:
  "fst (NewFile_scan t atts ls) =
     (if t \<noteq> [] then t
      else case find (\<lambda>l. heading_text l \<noteq> []) ls of None \<Rightarrow> [] | Some l \<Rightarrow> heading_text l)"
proof (induction ls arbitrary: t atts)
  case Nil
  then show ?case by simp
next
  case (Cons l ls)
  show ?case
    by (simp add: Cons.IH Let_def heading_text_def split: option.splits)
qed

lemma dropCR_set: "set (dropCR xs) \<subseteq> set xs"
  by (auto simp add: dropCR_def dest: in_set_butlastD)

lemma scan_tokens_no_newline:
  "l \<in> set (scan_tokens cur cs) \<Longrightarrow> newline \<notin> set cur \<Longrightarrow> newline \<notin> set l"
proof (induction cs arbitrary: cur)
  case Nil
  then show ?case using dropCR_set [of "rev cur"] by (auto split: if_splits)
next
  case (Cons c cs)
  show ?case
  proof (cases "c = newline")
    case True
    with Cons.prems have "l = dropCR (rev cur) \<or> l \<in> set (scan_tokens [] cs)"
      by (auto split: if_splits)
    then show ?thesis
    proof
      assume "l = dropCR (rev cur)"
      then show ?thesis using dropCR_set [of "rev cur"] Cons.prems(2) by auto
    next
      assume "l \<in> set (scan_tokens [] cs)"
      then show ?thesis using Cons.IH [of "[]"] by simp
    qed
  next
    case False
    with Cons.prems have "l \<in> set (scan_tokens (c # cur) cs)"
      by simp
    then show ?thesis using Cons.IH [of "c # cur"] False Cons.prems(2) by simp
  qed
qed

lemma heading_text_line:
  "newline \<notin> set l \<Longrightarrow>
   heading_text l = dropWhile (\<lambda>c. c = CHR '' '' \<or> c = CHR ''#'') (dropWhile (\<lambda>c. c \<noteq> CHR ''#'') l)"
proof -
  assume n: "newline \<notin> set l"
  have "\<forall>x \<in> set (dropWhile (\<lambda>c. c \<noteq> CHR ''#'') l). x \<noteq> newline"
    using n by (auto dest: set_dropWhileD)
  then have eq: "takeWhile (\<lambda>c. c \<noteq> newline) (dropWhile (\<lambda>c. c \<noteq> CHR ''#'') l) =
               dropWhile (\<lambda>c. c \<noteq> CHR ''#'') l"
    by (simp only: takeWhile_eq_all_conv)
  show ?thesis
    unfolding heading_text_def titleRe_FindString_def TrimLeft_def eq by simp
qed

text \<open>
  C2, as the code has it. When the file opens, \<open>NewFile\<close> returns a document whose
  title is \<open>heading_text\<close> of the first scanned line for which that text is not empty,
  and the empty string when there is no such line; a later line never replaces it. For
  a scanned line, \<open>heading_text\<close> is what follows the first \<open>#\<close> of the line and the
  run of \<open>#\<close> and spaces that starts there: only leading characters are stripped, the
  whitespace at the end of the line stays in the title.
\<close>

theorem NewFile_title:
  assumes "Open ops s path = Inr content"
  shows "(\<exists>f. NewFile ops s path = Inr f \<and> Path f = path \<and>
            Title f = (case find (\<lambda>l. heading_text l \<noteq> []) (ScanLines content) of
                         None \<Rightarrow> []
                       | Some l \<Rightarrow> heading_text l)) \<and>
         (\<forall>l \<in> set (ScanLines content).
            heading_text l =
              dropWhile (\<lambda>c. c = CHR '' '' \<or> c = CHR ''#'') (dropWhile (\<lambda>c. c \<noteq> CHR ''#'') l))"
proof
  have "fst (NewFile_scan [] [] (ScanLines content)) =
          (case find (\<lambda>l. heading_text l \<noteq> []) (ScanLines content) of
             None \<Rightarrow> [] | Some l \<Rightarrow> heading_text l)"
    by (simp add: scan_title)
  then show "\<exists>f. NewFile ops s path = Inr f \<and> Path f = path \<and>
            Title f = (case find (\<lambda>l. heading_text l \<noteq> []) (ScanLines content) of
                         None \<Rightarrow> []
                       | Some l \<Rightarrow> heading_text l)"
    using assms by (auto simp add: NewFile_def split: prod.splits)
next
  show "\<forall>l \<in> set (ScanLines content).
            heading_text l =
              dropWhile (\<lambda>c. c = CHR '' '' \<or> c = CHR ''#'') (dropWhile (\<lambda>c. c \<noteq> CHR ''#'') l)"
    using scan_tokens_no_newline [of _ "[]" content]
    by (auto simp add: ScanLines_def intro: heading_text_line)
qed


theorem NewFile_title_witness:
  "Open memfs_ops [(''n.md'', RegularFile (''intro'' @ [newline] @ ''## First heading''
                                            @ [newline] @ ''# Second''))] ''n.md'' =
     Inr (''intro'' @ [newline] @ ''## First heading'' @ [newline] @ ''# Second'') \<and>
   Title (projr (NewFile memfs_ops
                   [(''n.md'', RegularFile (''intro'' @ [newline] @ ''## First heading''
                                             @ [newline] @ ''# Second''))] ''n.md'')) =
     ''First heading'' \<and>
   heading_text ''## First heading'' = ''First heading''"
proof -
  let ?content = "''intro'' @ [newline] @ ''## First heading'' @ [newline] @ ''# Second''"
  let ?tree = "[(''n.md'', RegularFile ?content)]"
  have h: "Open memfs_ops ?tree ''n.md'' = Inr ?content"
    by code_simp
  have l: "ScanLines ?content = [''intro'', ''## First heading'', ''# Second'']"
    by (simp add: ScanLines_def MaxScanTokenSize_def dropCR_def newline_def
        carriage_return_def)
  have t: "(case find (\<lambda>l. heading_text l \<noteq> []) (ScanLines ?content) of
              None \<Rightarrow> [] | Some l \<Rightarrow> heading_text l) = ''First heading''"
    unfolding l by code_simp
  have d: "dropWhile (\<lambda>c. c = CHR '' '' \<or> c = CHR ''#'')
             (dropWhile (\<lambda>c. c \<noteq> CHR ''#'') ''## First heading'') = ''First heading''"
    by simp
  from NewFile_title [OF h] t l d show ?thesis
    using h by auto
qed

text \<open>
  C2 as stated fails on a heading with whitespace at its end: the specification's title
  of \<open># Title\<close> followed by two spaces is \<open>Title\<close>, the document's title keeps the
  two spaces.
\<close>

theorem NewFile_title_counterexample:
  "NewFile memfs_ops [(''t.md'', RegularFile ''# Title  '')] ''t.md'' =
     Inr \<lparr>Path = ''t.md'', Title = ''Title  '', Attachments = []\<rparr> \<and>
   spec_title (ScanLines ''# Title  '') = ''Title''"
proof -
  have l: "ScanLines ''# Title  '' = [''# Title  '']"
    by (simp add: ScanLines_def MaxScanTokenSize_def dropCR_def newline_def
        carriage_return_def)
  have o: "Open memfs_ops [(''t.md'', RegularFile ''# Title  '')] ''t.md'' = Inr ''# Title  ''"
    by code_simp
  have n: "NewFile_scan [] [] [''# Title  ''] = (''Title  '', [])"
    by code_simp
  have t: "spec_title [''# Title  ''] = ''Title''"
    by code_simp
  have "NewFile memfs_ops [(''t.md'', RegularFile ''# Title  '')] ''t.md'' =
          Inr \<lparr>Path = ''t.md'', Title = ''Title  '', Attachments = []\<rparr>"
    by (simp only: NewFile_def o l n sum.case prod.case)
  then show ?thesis
    by (simp only: l t)
qed

subsection \<open>Attachments follow a literal move\<close>


















subsection \<open>Unique names in a directory\<close>

lemma uniqueName_loop_free:
  "Exists ops (filesys w) d \<noteq> (True, None) \<Longrightarrow> uniqueName_loop ops w d i = Some (d, w)"
  by (subst uniqueName_loop.simps) (auto split: prod.splits)

lemma uniqueName_loop_taken:
  "Exists ops (filesys w) d = (True, None) \<Longrightarrow>
   w1 = (if i = 1 then log_Printf w (''[WARN] File with the same name already exists: '' @ d)
         else w) \<Longrightarrow>
   uniqueName_loop ops w d i = uniqueName_loop ops w1 (uniqueName_next d i) (Suc i)"
  by (subst uniqueName_loop.simps) simp

lemma uniqueName_loop_candidates:
  "(\<forall>k<n. Exists ops (filesys w) (candidate_from d i k) = (True, None)) \<Longrightarrow>
   Exists ops (filesys w) (candidate_from d i n) \<noteq> (True, None) \<Longrightarrow>
   1 \<le> i \<Longrightarrow>
   uniqueName_loop ops w d i =
     Some (candidate_from d i n,
           if 0 < n \<and> i = 1
           then log_Printf w (''[WARN] File with the same name already exists: '' @ d)
           else w)"
proof (induction n arbitrary: w d i)
  case 0
  then show ?case by (simp add: uniqueName_loop_free)
next
  case (Suc n)
  define w1 where
    "w1 = (if i = 1
           then log_Printf w (''[WARN] File with the same name already exists: '' @ d)
           else w)"
  have fs: "filesys w1 = filesys w"
    by (simp add: w1_def log_Printf_def)
  have taken: "Exists ops (filesys w) d = (True, None)"
    using Suc.prems(1) [rule_format, of 0] by simp
  have a: "\<forall>k<n. Exists ops (filesys w1) (candidate_from (uniqueName_next d i) (Suc i) k) =
                  (True, None)"
  proof (intro allI impI)
    fix k assume "k < n"
    then have "Exists ops (filesys w) (candidate_from d i (Suc k)) = (True, None)"
      using Suc.prems(1) [rule_format, of "Suc k"] by simp
    then show "Exists ops (filesys w1) (candidate_from (uniqueName_next d i) (Suc i) k) =
                 (True, None)"
      by (simp add: fs)
  qed
  have b: "Exists ops (filesys w1) (candidate_from (uniqueName_next d i) (Suc i) n) \<noteq>
             (True, None)"
    using Suc.prems(2) by (simp add: fs)
  have rest: "uniqueName_loop ops w1 (uniqueName_next d i) (Suc i) =
          Some (candidate_from (uniqueName_next d i) (Suc i) n, w1)"
  proof -
    have "1 \<le> Suc i" by simp
    from Suc.IH [OF a b this] Suc.prems(3) show ?thesis by simp
  qed
  have step: "uniqueName_loop ops w d i = uniqueName_loop ops w1 (uniqueName_next d i) (Suc i)"
    by (rule uniqueName_loop_taken [OF taken w1_def])
  show ?case
    unfolding step rest by (simp add: w1_def)
qed


text \<open>
  The group of the pattern of \<open>uniqueName\<close>, on a stem without a newline: the stem
  without its trailing digits and, before them, its trailing underscores.
\<close>

lemma dropWhile_snoc_nonempty:
  "dropWhile P (xs @ [c]) \<noteq> [] \<Longrightarrow> dropWhile P (xs @ [c]) = dropWhile P xs @ [c]"
  by (induction xs) (auto split: if_splits)

lemma strip_tail_snoc:
  "strip_tail (xs @ [c]) \<noteq> [] \<Longrightarrow> strip_tail (xs @ [c]) = strip_tail xs @ [c]"
proof -
  assume ne: "strip_tail (xs @ [c]) \<noteq> []"
  then have "dropWhile isDigit (xs @ [c]) \<noteq> []"
    unfolding strip_tail_def by (metis dropWhile.simps(1))
  then have inner: "dropWhile isDigit (xs @ [c]) = dropWhile isDigit xs @ [c]"
    by (rule dropWhile_snoc_nonempty)
  with ne have "dropWhile (\<lambda>c. c = CHR ''_'') (dropWhile isDigit xs @ [c]) \<noteq> []"
    by (simp add: strip_tail_def)
  then have "dropWhile (\<lambda>c. c = CHR ''_'') (dropWhile isDigit xs @ [c]) =
               dropWhile (\<lambda>c. c = CHR ''_'') (dropWhile isDigit xs) @ [c]"
    by (rule dropWhile_snoc_nonempty)
  with inner show ?thesis
    by (simp add: strip_tail_def)
qed

lemma dropWhile_two_empty:
  "dropWhile p (dropWhile q xs) = [] \<longleftrightarrow>
     (\<exists>a b. xs = a @ b \<and> (\<forall>x \<in> set a. q x) \<and> (\<forall>x \<in> set b. p x))"
proof
  assume e: "dropWhile p (dropWhile q xs) = []"
  have "\<forall>x \<in> set (takeWhile q xs). q x"
    by (auto dest: set_takeWhileD)
  moreover have "\<forall>x \<in> set (dropWhile q xs). p x"
    using e by (simp add: dropWhile_eq_Nil_conv)
  ultimately have "xs = takeWhile q xs @ dropWhile q xs \<and>
                   (\<forall>x \<in> set (takeWhile q xs). q x) \<and> (\<forall>x \<in> set (dropWhile q xs). p x)"
    by simp
  then show "\<exists>a b. xs = a @ b \<and> (\<forall>x \<in> set a. q x) \<and> (\<forall>x \<in> set b. p x)"
    by (intro exI)
next
  assume "\<exists>a b. xs = a @ b \<and> (\<forall>x \<in> set a. q x) \<and> (\<forall>x \<in> set b. p x)"
  then obtain a b where ab: "xs = a @ b" "\<forall>x \<in> set a. q x" "\<forall>x \<in> set b. p x"
    by blast
  then have "dropWhile q xs = dropWhile q b"
    by (simp add: dropWhile_append2)
  moreover have "\<forall>x \<in> set (dropWhile q b). p x"
    using ab(3) by (auto dest: set_dropWhileD)
  ultimately show "dropWhile p (dropWhile q xs) = []"
    by (simp add: dropWhile_eq_Nil_conv)
qed

lemma suffix_matches_no_newline:
  assumes "newline \<notin> set s"
  shows "suffix_matches s \<longleftrightarrow> dropWhile isDigit (dropWhile (\<lambda>c. c = CHR ''_'') s) = []"
proof (cases "dropWhile isDigit (dropWhile (\<lambda>c. c = CHR ''_'') s)")
  case Nil
  show ?thesis unfolding suffix_matches_def Nil by simp
next
  case (Cons c cs)
  have "c \<in> set (c # cs)"
    by simp
  then have "c \<in> set (dropWhile isDigit (dropWhile (\<lambda>c. c = CHR ''_'') s))"
    by (simp only: Cons)
  then have "c \<in> set s"
    by (blast dest: set_dropWhileD)
  with assms have "c \<noteq> newline" by auto
  then show ?thesis
    unfolding suffix_matches_def Cons by simp
qed

lemma split_rev:
  "(\<exists>a b. s = a @ b \<and> (\<forall>x \<in> set a. P x) \<and> (\<forall>x \<in> set b. Q x)) \<longleftrightarrow>
   (\<exists>b' a'. rev s = b' @ a' \<and> (\<forall>x \<in> set b'. Q x) \<and> (\<forall>x \<in> set a'. P x))"
proof
  assume "\<exists>a b. s = a @ b \<and> (\<forall>x \<in> set a. P x) \<and> (\<forall>x \<in> set b. Q x)"
  then obtain a b where "s = a @ b" "\<forall>x \<in> set a. P x" "\<forall>x \<in> set b. Q x"
    by blast
  then have "rev s = rev b @ rev a \<and> (\<forall>x \<in> set (rev b). Q x) \<and> (\<forall>x \<in> set (rev a). P x)"
    by simp
  then show "\<exists>b' a'. rev s = b' @ a' \<and> (\<forall>x \<in> set b'. Q x) \<and> (\<forall>x \<in> set a'. P x)"
    by (intro exI)
next
  assume "\<exists>b' a'. rev s = b' @ a' \<and> (\<forall>x \<in> set b'. Q x) \<and> (\<forall>x \<in> set a'. P x)"
  then obtain b' a' where r: "rev s = b' @ a'" "\<forall>x \<in> set b'. Q x" "\<forall>x \<in> set a'. P x"
    by blast
  from r(1) have "rev (rev s) = rev (b' @ a')"
    by simp
  then have "s = rev a' @ rev b'"
    by simp
  with r(2,3) have "s = rev a' @ rev b' \<and> (\<forall>x \<in> set (rev a'). P x) \<and> (\<forall>x \<in> set (rev b'). Q x)"
    by simp
  then show "\<exists>a b. s = a @ b \<and> (\<forall>x \<in> set a. P x) \<and> (\<forall>x \<in> set b. Q x)"
    by (intro exI)
qed

lemma suffix_matches_strip_tail:
  assumes "newline \<notin> set s"
  shows "suffix_matches s \<longleftrightarrow> strip_tail (rev s) = []"
proof -
  have "suffix_matches s \<longleftrightarrow> dropWhile isDigit (dropWhile (\<lambda>c. c = CHR ''_'') s) = []"
    using assms by (rule suffix_matches_no_newline)
  also have "\<dots> \<longleftrightarrow> (\<exists>a b. s = a @ b \<and> (\<forall>x \<in> set a. x = CHR ''_'') \<and> (\<forall>x \<in> set b. isDigit x))"
    by (rule dropWhile_two_empty [of isDigit "\<lambda>c. c = CHR ''_''" s])
  also have "\<dots> \<longleftrightarrow> (\<exists>b' a'. rev s = b' @ a' \<and> (\<forall>x \<in> set b'. isDigit x) \<and> (\<forall>x \<in> set a'. x = CHR ''_''))"
    by (rule split_rev [of s "\<lambda>c. c = CHR ''_''" isDigit])
  also have "\<dots> \<longleftrightarrow> strip_tail (rev s) = []"
    unfolding strip_tail_def
    by (rule dropWhile_two_empty [of "\<lambda>c. c = CHR ''_''" isDigit "rev s", symmetric])
  finally show ?thesis .
qed

lemma suffixRe_group1_strip:
  "newline \<notin> set stem \<Longrightarrow> suffixRe_group1 stem = rev (strip_tail (rev stem))"
proof (induction stem)
  case Nil
  then show ?case by (simp add: strip_tail_def)
next
  case (Cons c cs)
  then have IH: "suffixRe_group1 cs = rev (strip_tail (rev cs))"
    by simp
  show ?case
  proof (cases "suffix_matches (c # cs)")
    case True
    then have "strip_tail (rev (c # cs)) = []"
      using suffix_matches_strip_tail [OF Cons.prems] by simp
    with True show ?thesis by simp
  next
    case False
    then have "strip_tail (rev cs @ [c]) \<noteq> []"
      using suffix_matches_strip_tail [OF Cons.prems] by simp
    then have "strip_tail (rev cs @ [c]) = strip_tail (rev cs) @ [c]"
      by (rule strip_tail_snoc)
    with False IH show ?thesis by simp
  qed
qed


lemma MoveToDir_unfold:
  assumes "uniqueName ops w (Join [dirName, Base (Path f)]) = Some (dest, w0)"
  shows "MoveToDir ops w f dirName =
           Some (case Rename ops (filesys w0) (Path f) dest of
                   (s1, Some err) \<Rightarrow>
                     (w0\<lparr>filesys := s1\<rparr>, f, Some (Wrap ''failed to move a file'' (FsErr err)))
                 | (s1, None) \<Rightarrow>
                     (case MoveToDir_attachments ops (w0\<lparr>filesys := s1\<rparr>) (Path f) dirName
                             (Attachments f) of
                        (w1, err) \<Rightarrow> (w1, f, err)))"
proof -
  obtain s1 e where r: "Rename ops (filesys w0) (Path f) dest = (s1, e)"
    by (cases "Rename ops (filesys w0) (Path f) dest")
  show ?thesis
  proof (cases e)
    case None
    with r assms show ?thesis
      by (cases "Attachments f") (simp_all add: MoveToDir_def split: prod.splits)
  next
    case (Some err)
    with r assms show ?thesis
      by (simp add: MoveToDir_def)
  qed
qed

text \<open>
  The next name is made from the path in lower case, outside ASCII too: the capital A
  with grave and the Cyrillic capital De are lowered; a byte that is no UTF-8 comes
  back as the replacement character.
\<close>

lemma uniqueName_next_unicode:
  "uniqueName_next (''folder/'' @ [CHR 0xC3, CHR 0x80] @ ''B.md'') 1 =
     ''folder/'' @ [CHR 0xC3, CHR 0xA0] @ ''b_1.md'' \<and>
   uniqueName_next (''folder/'' @ [CHR 0xD0, CHR 0x94] @ ''.md'') 1 =
     ''folder/'' @ [CHR 0xD0, CHR 0xB4] @ ''_1.md'' \<and>
   uniqueName_next (''folder/A'' @ [CHR 0xFF] @ ''.md'') 1 =
     ''folder/a'' @ [CHR 0xEF, CHR 0xBF, CHR 0xBD] @ ''_1.md''"
  by code_simp

text \<open>
  C6 at concrete inputs. Three documents named \<open>index.md\<close> moved into one directory
  become \<open>index.md\<close>, \<open>index_1.md\<close>, \<open>index_2.md\<close>, in that order. But the
  name that \<open>uniqueName\<close> makes after a collision is not always the name with the
  suffix put before the extension: its pattern removes every digit at the end of the
  stem, with or without an underscore before them, and the name is made from the path in
  lower case. The document \<open>notes2024.md\<close>, moved into a directory that holds a
  \<open>notes2024.md\<close>, is renamed to \<open>notes_1.md\<close>; the suffix appended to the stem,
  which has no group \<open>_<digits>\<close> to strip, gives \<open>notes2024_1.md\<close>. The name
  made after \<open>2024.md\<close> is \<open>_1.md\<close>, and \<open>Index.md\<close> is renamed to
  \<open>index_1.md\<close>.
\<close>

theorem uniqueName_strips_digits:
  "moveFiles memfs_ops (start index_tree) index_docs ''folder'' =
     Some (\<lparr>filesys =
              [(''folder/index_2.md'', RegularFile ''# Three''),
               (''folder/index_1.md'', RegularFile ''# Two''),
               (''folder/index.md'', RegularFile ''# One''),
               (''folder'', Directory),
               (''folder1'', Directory),
               (''folder2'', Directory),
               (''folder3'', Directory)],
            logged =
              [''[WARN] File with the same name already exists: folder/index.md'',
               ''[WARN] File with the same name already exists: folder/index.md'']\<rparr>,
           index_docs, None) \<and>
   MoveToDir memfs_ops (start digits_tree) digits_doc ''folder'' =
     Some (\<lparr>filesys =
              [(''folder/notes_1.md'', RegularFile ''# New''),
               (''inbox'', Directory),
               (''folder'', Directory),
               (''folder/notes2024.md'', RegularFile ''# Old'')],
            logged =
              [''[WARN] File with the same name already exists: folder/notes2024.md'']\<rparr>,
           digits_doc, None) \<and>
   spec_next_name ''folder/notes2024.md'' 1 = ''folder/notes2024_1.md'' \<and>
   uniqueName_next ''folder/2024.md'' 1 = ''folder/_1.md'' \<and>
   spec_next_name ''folder/2024.md'' 1 = ''folder/2024_1.md'' \<and>
   MoveToDir memfs_ops (start capital_tree) capital_doc ''folder'' =
     Some (\<lparr>filesys =
              [(''folder/index_1.md'', RegularFile ''# New''),
               (''folder'', Directory),
               (''folder/Index.md'', RegularFile ''# Old'')],
            logged = [''[WARN] File with the same name already exists: folder/Index.md'']\<rparr>,
           capital_doc, None) \<and>
   spec_next_name ''folder/Index.md'' 1 = ''folder/Index_1.md''"
proof (intro conjI)
  show "moveFiles memfs_ops (start index_tree) index_docs ''folder'' =
     Some (\<lparr>filesys =
              [(''folder/index_2.md'', RegularFile ''# Three''),
               (''folder/index_1.md'', RegularFile ''# Two''),
               (''folder/index.md'', RegularFile ''# One''),
               (''folder'', Directory),
               (''folder1'', Directory),
               (''folder2'', Directory),
               (''folder3'', Directory)],
            logged =
              [''[WARN] File with the same name already exists: folder/index.md'',
               ''[WARN] File with the same name already exists: folder/index.md'']\<rparr>,
           index_docs, None)"
    by code_simp
next
  show "MoveToDir memfs_ops (start digits_tree) digits_doc ''folder'' =
     Some (\<lparr>filesys =
              [(''folder/notes_1.md'', RegularFile ''# New''),
               (''inbox'', Directory),
               (''folder'', Directory),
               (''folder/notes2024.md'', RegularFile ''# Old'')],
            logged =
              [''[WARN] File with the same name already exists: folder/notes2024.md'']\<rparr>,
           digits_doc, None)"
    by code_simp
next
  show "spec_next_name ''folder/notes2024.md'' 1 = ''folder/notes2024_1.md''"
    by code_simp
next
  show "uniqueName_next ''folder/2024.md'' 1 = ''folder/_1.md''"
    by code_simp
next
  show "spec_next_name ''folder/2024.md'' 1 = ''folder/2024_1.md''"
    by code_simp
next
  show "MoveToDir memfs_ops (start capital_tree) capital_doc ''folder'' =
     Some (\<lparr>filesys =
              [(''folder/index_1.md'', RegularFile ''# New''),
               (''folder'', Directory),
               (''folder/Index.md'', RegularFile ''# Old'')],
            logged = [''[WARN] File with the same name already exists: folder/Index.md'']\<rparr>,
           capital_doc, None)"
    by code_simp
next
  show "spec_next_name ''folder/Index.md'' 1 = ''folder/Index_1.md''"
    by code_simp
qed

subsection \<open>The stored path after a move into a directory\<close>

text \<open>\<open>MoveToDir\<close> returns the document it was given: it has no assignment to \<open>f.Path\<close>.\<close>

lemma MoveToDir_keeps_document:
  "MoveToDir ops w f dirName = Some (w', f', err) \<Longrightarrow> f' = f"
  by (auto simp add: MoveToDir_def split: option.splits prod.splits if_splits)

text \<open>
  C7 at a concrete input. The note of the README is moved into \<open>content\<close> by
  \<open>MoveToDir\<close>: the move succeeds, the file and its image are now under
  \<open>content\<close>, and the path of the document is still \<open>notes/note1.md\<close>. (\<open>Move\<close>
  sets the path to the destination, see C10.)
\<close>

theorem MoveToDir_leaves_path:
  "MoveToDir memfs_ops (start note_tree) note_doc ''content'' =
     Some (start [(''content/images/image1.png'', RegularFile ''PNG''),
                  (''content/images'', Directory),
                  (''content/note1.md'', RegularFile ''# My personal note''),
                  (''notes'', Directory),
                  (''notes/images'', Directory),
                  (''content'', Directory)],
           note_doc, None) \<and>
   Path note_doc = ''notes/note1.md''"
  by code_simp

subsection \<open>Missing attachments in a move into a directory\<close>

lemma MoveToDir_attachments_append:
  "MoveToDir_attachments ops w path dirName (xs @ ys) =
     (case MoveToDir_attachments ops w path dirName xs of
        (w', None) \<Rightarrow> MoveToDir_attachments ops w' path dirName ys
      | (w', Some err) \<Rightarrow> (w', Some err))"
proof (induction xs arbitrary: w)
  case Nil
  then show ?case by simp
next
  case (Cons a xs)
  obtain w' e where step: "MoveToDir_attachment ops w path dirName a = (w', e)"
    by (cases "MoveToDir_attachment ops w path dirName a")
  show ?case
  proof (cases e)
    case None
    with step Cons.IH [of w'] show ?thesis by simp
  next
    case (Some err)
    with step show ?thesis by simp
  qed
qed

text \<open>
  C8, as the code has it. In \<open>MoveToDir\<close>, when a free name is among the candidates
  of \<open>uniqueName\<close>, the document is renamed to it, and the loop reaches an attachment
  without error: what happens to the attachment depends on the status of
  \<open><original-file-dir>/<attachment>\<close> at that moment, after the renames made so far.
  When the status is the error "does not exist", the warning "attachment is missing" is
  logged, the filesystem is left as it is and the loop goes on with the attachments that
  follow; \<open>MoveToDir\<close> returns, its result is the result of that rest of the loop,
  and it is success when the missing attachment is the last one. When the status is
  any other error, the attachment is not skipped and nothing is logged: the directory
  of its destination is created and the rename is attempted, and the failure of either
  is the error that \<open>MoveToDir\<close> returns.
\<close>

theorem MoveToDir_skips_missing_attachment:
  assumes "\<forall>k<n. Exists ops (filesys w) (candidate_from (Join [dirName, Base (Path f)]) 1 k) =
                   (True, None)"
    and "Exists ops (filesys w) (candidate_from (Join [dirName, Base (Path f)]) 1 n) \<noteq>
           (True, None)"
    and "dest = candidate_from (Join [dirName, Base (Path f)]) 1 n"
    and "w0 = (if n = 0 then w
               else log_Printf w (''[WARN] File with the same name already exists: '' @
                                  Join [dirName, Base (Path f)]))"
    and "Rename ops (filesys w) (Path f) dest = (s1, None)"
    and "Attachments f = before @ attachment # rest"
    and "MoveToDir_attachments ops (w0\<lparr>filesys := s1\<rparr>) (Path f) dirName before = (w1, None)"
    and "Stat ops (filesys w1) (Join [Dir (Path f), attachment]) = Inl err"
  shows "(IsNotExist err \<longrightarrow>
            MoveToDir ops w f dirName =
              (case MoveToDir_attachments ops
                      (log_Printf w1
                         (''[WARN] attachment is missing: '' @ Join [Dir (Path f), attachment]))
                      (Path f) dirName rest of
                 (w2, e) \<Rightarrow> Some (w2, f, e)) \<and>
            filesys (log_Printf w1
                       (''[WARN] attachment is missing: '' @ Join [Dir (Path f), attachment])) =
              filesys w1 \<and>
            (rest = [] \<longrightarrow>
               MoveToDir ops w f dirName =
                 Some (log_Printf w1
                         (''[WARN] attachment is missing: '' @ Join [Dir (Path f), attachment]),
                       f, None))) \<and>
         (\<not> IsNotExist err \<longrightarrow>
            MoveToDir ops w f dirName =
              (case ensureDir ops (filesys w1) (Join [dirName, attachment]) of
                 (s2, Some e) \<Rightarrow> Some (w1\<lparr>filesys := s2\<rparr>, f, Some e)
               | (s2, None) \<Rightarrow>
                   (case Rename ops s2 (Join [Dir (Path f), attachment])
                           (Join [dirName, attachment]) of
                      (s3, Some e) \<Rightarrow>
                        Some (w1\<lparr>filesys := s3\<rparr>, f,
                              Some (Wrap ''failed to move an attachment'' (FsErr e)))
                    | (s3, None) \<Rightarrow>
                        (case MoveToDir_attachments ops (w1\<lparr>filesys := s3\<rparr>) (Path f)
                                dirName rest of
                           (w2, e) \<Rightarrow> Some (w2, f, e)))))"
proof (intro conjI impI)
  let ?src = "Join [Dir (Path f), attachment]"
  let ?w1' = "log_Printf w1 (''[WARN] attachment is missing: '' @ ?src)"
  have "uniqueName_loop ops w (Join [dirName, Base (Path f)]) 1 =
          Some (candidate_from (Join [dirName, Base (Path f)]) 1 n,
                if 0 < n \<and> (1::nat) = 1
                then log_Printf w (''[WARN] File with the same name already exists: '' @
                                   Join [dirName, Base (Path f)])
                else w)"
    using assms(1,2) by (rule uniqueName_loop_candidates) simp
  then have name: "uniqueName ops w (Join [dirName, Base (Path f)]) = Some (dest, w0)"
    using assms(3,4) by (simp add: uniqueName_def)
  have "filesys w0 = filesys w"
    using assms(4) by (simp add: log_Printf_def)
  with assms(5) have renamed: "Rename ops (filesys w0) (Path f) dest = (s1, None)"
    by simp
  have loop: "MoveToDir_attachments ops (w0\<lparr>filesys := s1\<rparr>) (Path f) dirName (Attachments f) =
                MoveToDir_attachments ops w1 (Path f) dirName (attachment # rest)"
    using assms(6,7) by (simp add: MoveToDir_attachments_append)
  have whole: "MoveToDir ops w f dirName =
           (case MoveToDir_attachments ops w1 (Path f) dirName (attachment # rest) of
              (w2, e) \<Rightarrow> Some (w2, f, e))"
    using MoveToDir_unfold [OF name] renamed loop
    by (cases "MoveToDir_attachments ops w1 (Path f) dirName (attachment # rest)") simp
  {
    assume "IsNotExist err"
    with assms(8) have "Exists ops (filesys w1) ?src = (False, None)"
      by (simp add: Exists_def)
    then have "MoveToDir_attachment ops w1 (Path f) dirName attachment = (?w1', None)"
      by (simp add: MoveToDir_attachment_def)
    then have step: "MoveToDir_attachments ops w1 (Path f) dirName (attachment # rest) =
                  MoveToDir_attachments ops ?w1' (Path f) dirName rest"
      by simp
    show skip: "MoveToDir ops w f dirName =
             (case MoveToDir_attachments ops ?w1' (Path f) dirName rest of
                (w2, e) \<Rightarrow> Some (w2, f, e))"
      unfolding whole step ..
    show "filesys ?w1' = filesys w1"
      by (simp add: log_Printf_def)
    {
      assume "rest = []"
      with skip show "MoveToDir ops w f dirName = Some (?w1', f, None)"
        by simp
    }
  }
  {
    assume "\<not> IsNotExist err"
    with assms(8) have ex: "Exists ops (filesys w1) ?src = (False, Some err)"
      by (simp add: Exists_def)
    obtain s2 e2 where d: "ensureDir ops (filesys w1) (Join [dirName, attachment]) = (s2, e2)"
      by (cases "ensureDir ops (filesys w1) (Join [dirName, attachment])")
    obtain s3 e3 where r: "Rename ops s2 ?src (Join [dirName, attachment]) = (s3, e3)"
      by (cases "Rename ops s2 ?src (Join [dirName, attachment])")
    have step: "MoveToDir_attachment ops w1 (Path f) dirName attachment =
                  (case e2 of
                     Some e \<Rightarrow> (w1\<lparr>filesys := s2\<rparr>, Some e)
                   | None \<Rightarrow>
                       (case e3 of
                          Some e \<Rightarrow>
                            (w1\<lparr>filesys := s3\<rparr>,
                             Some (Wrap ''failed to move an attachment'' (FsErr e)))
                        | None \<Rightarrow> (w1\<lparr>filesys := s3\<rparr>, None)))"
      using ex d r by (cases e2; cases e3) (simp_all add: MoveToDir_attachment_def)
    show "MoveToDir ops w f dirName =
              (case ensureDir ops (filesys w1) (Join [dirName, attachment]) of
                 (s2, Some e) \<Rightarrow> Some (w1\<lparr>filesys := s2\<rparr>, f, Some e)
               | (s2, None) \<Rightarrow>
                   (case Rename ops s2 ?src (Join [dirName, attachment]) of
                      (s3, Some e) \<Rightarrow>
                        Some (w1\<lparr>filesys := s3\<rparr>, f,
                              Some (Wrap ''failed to move an attachment'' (FsErr e)))
                    | (s3, None) \<Rightarrow>
                        (case MoveToDir_attachments ops (w1\<lparr>filesys := s3\<rparr>) (Path f)
                                dirName rest of
                           (w2, e) \<Rightarrow> Some (w2, f, e))))"
      unfolding whole d
      using step r by (cases e2; cases e3) simp_all
  }
qed

theorem MoveToDir_skips_missing_attachment_witness:
  "MoveToDir memfs_ops (start taken_tree) sample_doc ''folder'' =
     Some (\<lparr>filesys =
              [(''folder/sample_1.md'', RegularFile ''# Sample file for testing purpose''),
               (''folder'', Directory),
               (''folder/sample.md'', RegularFile ''# Older'')],
            logged =
              [''[WARN] File with the same name already exists: folder/sample.md'',
               ''[WARN] attachment is missing: images/sample.png'']\<rparr>,
           sample_doc, None) \<and>
   MoveToDir memfs_ops (start cover_tree) cover_doc ''folder'' =
     Some (start [(''folder/cover.png'', Directory),
                  (''folder/n.md'', RegularFile ''# N''),
                  (''notes'', Directory),
                  (''notes/cover.png'', RegularFile ''PNG''),
                  (''folder'', Directory)],
           cover_doc, Some (Wrap ''failed to move an attachment'' (FsErr ENOTDIR)))"
proof
  let ?moved = "[(''folder/sample_1.md'', RegularFile ''# Sample file for testing purpose''),
                 (''folder'', Directory),
                 (''folder/sample.md'', RegularFile ''# Older'')]"
  let ?w0 = "\<lparr>filesys = taken_tree,
              logged = [''[WARN] File with the same name already exists: folder/sample.md'']\<rparr>"
  let ?w1 = "\<lparr>filesys = ?moved,
              logged = [''[WARN] File with the same name already exists: folder/sample.md'']\<rparr>"
  have c0: "candidate_from (Join [''folder'', Base (Path sample_doc)]) 1 0 = ''folder/sample.md''"
    by code_simp
  have c1: "candidate_from (Join [''folder'', Base (Path sample_doc)]) 1 1 = ''folder/sample_1.md''"
    by code_simp
  have h1: "\<forall>k<1. Exists memfs_ops (filesys (start taken_tree))
                     (candidate_from (Join [''folder'', Base (Path sample_doc)]) 1 k) =
                   (True, None)"
  proof (intro allI impI)
    fix k :: nat assume "k < 1"
    then have "k = 0" by simp
    moreover have "Exists memfs_ops (filesys (start taken_tree)) ''folder/sample.md'' =
                     (True, None)"
      by code_simp
    ultimately show "Exists memfs_ops (filesys (start taken_tree))
                       (candidate_from (Join [''folder'', Base (Path sample_doc)]) 1 k) =
                     (True, None)"
      by (simp only: c0)
  qed
  have h2: "Exists memfs_ops (filesys (start taken_tree))
              (candidate_from (Join [''folder'', Base (Path sample_doc)]) 1 1) \<noteq> (True, None)"
    unfolding c1 by code_simp
  have h3: "''folder/sample_1.md'' =
              candidate_from (Join [''folder'', Base (Path sample_doc)]) 1 1"
    by (simp only: c1)
  have h4: "?w0 = (if (1::nat) = 0 then start taken_tree
                   else log_Printf (start taken_tree)
                          (''[WARN] File with the same name already exists: '' @
                           Join [''folder'', Base (Path sample_doc)]))"
    by code_simp
  have h5: "Rename memfs_ops (filesys (start taken_tree)) (Path sample_doc)
              ''folder/sample_1.md'' = (?moved, None)"
    by code_simp
  have h6: "Attachments sample_doc = [] @ ''images/sample.png'' # []"
    by code_simp
  have h7: "MoveToDir_attachments memfs_ops (?w0\<lparr>filesys := ?moved\<rparr>)
              (Path sample_doc) ''folder'' [] = (?w1, None)"
    by code_simp
  have h8: "Stat memfs_ops (filesys ?w1)
              (Join [Dir (Path sample_doc), ''images/sample.png'']) = Inl ENOENT"
    by code_simp
  have ne: "IsNotExist ENOENT"
    by (simp add: IsNotExist_def)
  have l: "log_Printf ?w1
             (''[WARN] attachment is missing: '' @
              Join [Dir (Path sample_doc), ''images/sample.png'']) =
           \<lparr>filesys = ?moved,
            logged =
              [''[WARN] File with the same name already exists: folder/sample.md'',
               ''[WARN] attachment is missing: images/sample.png'']\<rparr>"
    by code_simp
  from MoveToDir_skips_missing_attachment [OF h1 h2 h3 h4 h5 h6 h7 h8] ne
  have "MoveToDir memfs_ops (start taken_tree) sample_doc ''folder'' =
          Some (log_Printf ?w1
                  (''[WARN] attachment is missing: '' @
                   Join [Dir (Path sample_doc), ''images/sample.png'']),
                sample_doc, None)"
    by blast
  then show "MoveToDir memfs_ops (start taken_tree) sample_doc ''folder'' =
     Some (\<lparr>filesys = ?moved,
            logged =
              [''[WARN] File with the same name already exists: folder/sample.md'',
               ''[WARN] attachment is missing: images/sample.png'']\<rparr>,
           sample_doc, None)"
    by (simp only: l)
next
  let ?moved = "[(''folder/n.md'', RegularFile ''# N''),
                 (''notes'', Directory),
                 (''notes/cover.png'', RegularFile ''PNG''),
                 (''folder'', Directory)]"
  let ?made = "[(''folder/cover.png'', Directory),
                (''folder/n.md'', RegularFile ''# N''),
                (''notes'', Directory),
                (''notes/cover.png'', RegularFile ''PNG''),
                (''folder'', Directory)]"
  have c0: "candidate_from (Join [''folder'', Base (Path cover_doc)]) 1 0 = ''folder/n.md''"
    by code_simp
  have h1: "\<forall>k<0. Exists memfs_ops (filesys (start cover_tree))
                     (candidate_from (Join [''folder'', Base (Path cover_doc)]) 1 k) =
                   (True, None)"
    by simp
  have h2: "Exists memfs_ops (filesys (start cover_tree))
              (candidate_from (Join [''folder'', Base (Path cover_doc)]) 1 0) \<noteq> (True, None)"
    unfolding c0 by code_simp
  have h3: "''folder/n.md'' = candidate_from (Join [''folder'', Base (Path cover_doc)]) 1 0"
    by (simp only: c0)
  have h4: "start cover_tree =
              (if (0::nat) = 0 then start cover_tree
               else log_Printf (start cover_tree)
                      (''[WARN] File with the same name already exists: '' @
                       Join [''folder'', Base (Path cover_doc)]))"
    by simp
  have h5: "Rename memfs_ops (filesys (start cover_tree)) (Path cover_doc) ''folder/n.md'' =
              (?moved, None)"
    by code_simp
  have h6: "Attachments cover_doc = [] @ ''cover.png/small.png'' # []"
    by code_simp
  have h7: "MoveToDir_attachments memfs_ops ((start cover_tree)\<lparr>filesys := ?moved\<rparr>)
              (Path cover_doc) ''folder'' [] = (start ?moved, None)"
    by code_simp
  have h8: "Stat memfs_ops (filesys (start ?moved))
              (Join [Dir (Path cover_doc), ''cover.png/small.png'']) = Inl ENOTDIR"
    by code_simp
  have ne: "\<not> IsNotExist ENOTDIR"
    by (simp add: IsNotExist_def)
  have r: "(case ensureDir memfs_ops (filesys (start ?moved))
                   (Join [''folder'', ''cover.png/small.png'']) of
              (s2, Some e) \<Rightarrow> Some ((start ?moved)\<lparr>filesys := s2\<rparr>, cover_doc, Some e)
            | (s2, None) \<Rightarrow>
                (case Rename memfs_ops s2 (Join [Dir (Path cover_doc), ''cover.png/small.png''])
                        (Join [''folder'', ''cover.png/small.png'']) of
                   (s3, Some e) \<Rightarrow>
                     Some ((start ?moved)\<lparr>filesys := s3\<rparr>, cover_doc,
                           Some (Wrap ''failed to move an attachment'' (FsErr e)))
                 | (s3, None) \<Rightarrow>
                     (case MoveToDir_attachments memfs_ops ((start ?moved)\<lparr>filesys := s3\<rparr>)
                             (Path cover_doc) ''folder'' [] of
                        (w2, e) \<Rightarrow> Some (w2, cover_doc, e)))) =
           Some (start ?made, cover_doc,
                 Some (Wrap ''failed to move an attachment'' (FsErr ENOTDIR)))"
    by code_simp
  from MoveToDir_skips_missing_attachment [OF h1 h2 h3 h4 h5 h6 h7 h8] ne
  have "MoveToDir memfs_ops (start cover_tree) cover_doc ''folder'' =
          (case ensureDir memfs_ops (filesys (start ?moved))
                   (Join [''folder'', ''cover.png/small.png'']) of
              (s2, Some e) \<Rightarrow> Some ((start ?moved)\<lparr>filesys := s2\<rparr>, cover_doc, Some e)
            | (s2, None) \<Rightarrow>
                (case Rename memfs_ops s2 (Join [Dir (Path cover_doc), ''cover.png/small.png''])
                        (Join [''folder'', ''cover.png/small.png'']) of
                   (s3, Some e) \<Rightarrow>
                     Some ((start ?moved)\<lparr>filesys := s3\<rparr>, cover_doc,
                           Some (Wrap ''failed to move an attachment'' (FsErr e)))
                 | (s3, None) \<Rightarrow>
                     (case MoveToDir_attachments memfs_ops ((start ?moved)\<lparr>filesys := s3\<rparr>)
                             (Path cover_doc) ''folder'' [] of
                        (w2, e) \<Rightarrow> Some (w2, cover_doc, e))))"
    by blast
  then show "MoveToDir memfs_ops (start cover_tree) cover_doc ''folder'' =
     Some (start ?made, cover_doc, Some (Wrap ''failed to move an attachment'' (FsErr ENOTDIR)))"
    by (simp only: r)
qed

text \<open>
  C8 as stated fails on an attachment that is not on disk because a regular file is in
  the way. The document refers to \<open>cover.png/small.png\<close> and \<open>notes/cover.png\<close>
  is a regular file: nothing is at \<open>notes/cover.png/small.png\<close>, its status is the
  error "not a directory", and the attachment is not skipped. The document is moved,
  the directory \<open>folder/cover.png\<close> is created, the rename of the attachment fails
  and \<open>MoveToDir\<close> returns its error; no warning is logged.
\<close>

theorem MoveToDir_missing_attachment_counterexample:
  "Attachments cover_doc = [''cover.png/small.png''] \<and>
   Join [Dir (Path cover_doc), ''cover.png/small.png''] = ''notes/cover.png/small.png'' \<and>
   mem_node cover_tree ''notes/cover.png/small.png'' = None \<and>
   Stat memfs_ops cover_tree ''notes/cover.png/small.png'' = Inl ENOTDIR \<and>
   MoveToDir memfs_ops (start cover_tree) cover_doc ''folder'' =
     Some (\<lparr>filesys =
              [(''folder/cover.png'', Directory),
               (''folder/n.md'', RegularFile ''# N''),
               (''notes'', Directory),
               (''notes/cover.png'', RegularFile ''PNG''),
               (''folder'', Directory)],
            logged = []\<rparr>,
           cover_doc, Some (Wrap ''failed to move an attachment'' (FsErr ENOTDIR)))"
  by code_simp

subsection \<open>The cleanup sweep\<close>

lemma sort_Reverse_props:
  "sorted_wrt (\<lambda>a b. b \<le> a) (sort_Reverse keys) \<and> mset (sort_Reverse keys) = mset keys"
  by (simp add: sort_Reverse_def sorted_wrt_rev)

lemma cleanUp_loop_skip:
  "\<not> fst (DirExists ops s dir) \<Longrightarrow>
   cleanUp_loop ops s (dir # dirs) = cleanUp_loop ops s dirs"
  by (cases "DirExists ops s dir") simp

lemma cleanUp_loop_nonempty:
  "fst (DirExists ops s dir) \<Longrightarrow> IsEmpty ops s dir = (False, None) \<Longrightarrow>
   cleanUp_loop ops s (dir # dirs) = cleanUp_loop ops s dirs"
  by (cases "DirExists ops s dir") simp

lemma cleanUp_loop_remove:
  "fst (DirExists ops s dir) \<Longrightarrow> IsEmpty ops s dir = (True, None) \<Longrightarrow>
   Remove ops s dir = (s', None) \<Longrightarrow>
   cleanUp_loop ops s (dir # dirs) = cleanUp_loop ops s' dirs"
  by (cases "DirExists ops s dir") simp

lemma cleanUp_loop_remove_fails:
  "fst (DirExists ops s dir) \<Longrightarrow> IsEmpty ops s dir = (True, None) \<Longrightarrow>
   Remove ops s dir = (s', Some e) \<Longrightarrow>
   cleanUp_loop ops s (dir # dirs) = (s', Some (Wrap ''failed to clean up a dir'' (FsErr e)))"
  by (cases "DirExists ops s dir") simp

lemma cleanUp_loop_check_fails:
  "fst (DirExists ops s dir) \<Longrightarrow> IsEmpty ops s dir = (b, Some e') \<Longrightarrow>
   cleanUp_loop ops s (dir # dirs) = (s, Some (Wrap ''failed to check if dir is empty'' e'))"
  by (cases "DirExists ops s dir") simp

lemma cleanUp_loop_noop:
  "(\<forall>k \<in> set dirs. \<not> fst (DirExists ops s k) \<or> IsEmpty ops s k = (False, None)) \<Longrightarrow>
   cleanUp_loop ops s dirs = (s, None)"
proof (induction dirs)
  case Nil
  then show ?case by simp
next
  case (Cons d ds)
  then have rest: "cleanUp_loop ops s ds = (s, None)"
    by simp
  from Cons.prems have "\<not> fst (DirExists ops s d) \<or> IsEmpty ops s d = (False, None)"
    by simp
  then show ?case
  proof
    assume "\<not> fst (DirExists ops s d)"
    then have "cleanUp_loop ops s (d # ds) = cleanUp_loop ops s ds"
      by (rule cleanUp_loop_skip)
    with rest show ?thesis by (simp only:)
  next
    assume e: "IsEmpty ops s d = (False, None)"
    show ?thesis
    proof (cases "fst (DirExists ops s d)")
      case True
      then have "cleanUp_loop ops s (d # ds) = cleanUp_loop ops s ds"
        using e by (rule cleanUp_loop_nonempty)
      with rest show ?thesis by (simp only:)
    next
      case False
      then have "cleanUp_loop ops s (d # ds) = cleanUp_loop ops s ds"
        by (rule cleanUp_loop_skip)
      with rest show ?thesis by (simp only:)
    qed
  qed
qed

lemma DirExists_Stat_error: "Stat ops s dir = Inl err \<Longrightarrow> \<not> fst (DirExists ops s dir)"
  by (simp add: DirExists_def)

text \<open>
  C9, as the code has it. \<open>cleanUp\<close> runs its loop over the candidates sorted in
  descending order of their bytes. A candidate that \<open>DirExists\<close> does not report as a
  directory is skipped without error: one that does not exist, one that is a regular
  file, and also one whose status cannot be read, whatever the error (the error of
  \<open>DirExists\<close> is discarded). A directory that is not empty is left untouched. An
  empty directory is removed and the loop goes on in the new state. When the removal
  fails, or when the check for emptiness fails, the loop stops with a fatal error and
  returns the state it has reached, so what was removed stays removed. A sweep in which
  every candidate is absent or not empty changes nothing and returns no error.
\<close>

theorem cleanUp_sweep:
  "cleanUp ops s keys = cleanUp_loop ops s (sort_Reverse keys) \<and>
   sorted_wrt (\<lambda>a b. b \<le> a) (sort_Reverse keys) \<and>
   mset (sort_Reverse keys) = mset keys \<and>
   (\<not> fst (DirExists ops s dir) \<longrightarrow>
      cleanUp_loop ops s (dir # dirs) = cleanUp_loop ops s dirs) \<and>
   (Stat ops s dir = Inl err \<longrightarrow>
      cleanUp_loop ops s (dir # dirs) = cleanUp_loop ops s dirs) \<and>
   (fst (DirExists ops s dir) \<longrightarrow> IsEmpty ops s dir = (False, None) \<longrightarrow>
      cleanUp_loop ops s (dir # dirs) = cleanUp_loop ops s dirs) \<and>
   (fst (DirExists ops s dir) \<longrightarrow> IsEmpty ops s dir = (True, None) \<longrightarrow>
      Remove ops s dir = (s', None) \<longrightarrow>
      cleanUp_loop ops s (dir # dirs) = cleanUp_loop ops s' dirs) \<and>
   (fst (DirExists ops s dir) \<longrightarrow> IsEmpty ops s dir = (True, None) \<longrightarrow>
      Remove ops s dir = (s', Some e) \<longrightarrow>
      cleanUp_loop ops s (dir # dirs) = (s', Some (Wrap ''failed to clean up a dir'' (FsErr e)))) \<and>
   (fst (DirExists ops s dir) \<longrightarrow> IsEmpty ops s dir = (b, Some e') \<longrightarrow>
      cleanUp_loop ops s (dir # dirs) =
        (s, Some (Wrap ''failed to check if dir is empty'' e'))) \<and>
   ((\<forall>k \<in> set keys. \<not> fst (DirExists ops s k) \<or> IsEmpty ops s k = (False, None)) \<longrightarrow>
      cleanUp ops s keys = (s, None))"
proof (intro conjI impI)
  show "cleanUp ops s keys = cleanUp_loop ops s (sort_Reverse keys)"
    by (simp add: cleanUp_def)
  show "sorted_wrt (\<lambda>a b. b \<le> a) (sort_Reverse keys)"
    using sort_Reverse_props by blast
  show "mset (sort_Reverse keys) = mset keys"
    using sort_Reverse_props by blast
next
  assume "\<not> fst (DirExists ops s dir)"
  then show "cleanUp_loop ops s (dir # dirs) = cleanUp_loop ops s dirs"
    by (rule cleanUp_loop_skip)
next
  assume "Stat ops s dir = Inl err"
  then have "\<not> fst (DirExists ops s dir)"
    by (rule DirExists_Stat_error)
  then show "cleanUp_loop ops s (dir # dirs) = cleanUp_loop ops s dirs"
    by (rule cleanUp_loop_skip)
next
  assume "fst (DirExists ops s dir)" and "IsEmpty ops s dir = (False, None)"
  then show "cleanUp_loop ops s (dir # dirs) = cleanUp_loop ops s dirs"
    by (rule cleanUp_loop_nonempty)
next
  assume "fst (DirExists ops s dir)" and "IsEmpty ops s dir = (True, None)"
    and "Remove ops s dir = (s', None)"
  then show "cleanUp_loop ops s (dir # dirs) = cleanUp_loop ops s' dirs"
    by (rule cleanUp_loop_remove)
next
  assume "fst (DirExists ops s dir)" and "IsEmpty ops s dir = (True, None)"
    and "Remove ops s dir = (s', Some e)"
  then show "cleanUp_loop ops s (dir # dirs) =
               (s', Some (Wrap ''failed to clean up a dir'' (FsErr e)))"
    by (rule cleanUp_loop_remove_fails)
next
  assume "fst (DirExists ops s dir)" and "IsEmpty ops s dir = (b, Some e')"
  then show "cleanUp_loop ops s (dir # dirs) =
               (s, Some (Wrap ''failed to check if dir is empty'' e'))"
    by (rule cleanUp_loop_check_fails)
next
  assume "\<forall>k \<in> set keys. \<not> fst (DirExists ops s k) \<or> IsEmpty ops s k = (False, None)"
  then have "\<forall>k \<in> set (sort_Reverse keys).
               \<not> fst (DirExists ops s k) \<or> IsEmpty ops s k = (False, None)"
    by (simp add: sort_Reverse_def)
  then show "cleanUp ops s keys = (s, None)"
    unfolding cleanUp_def by (rule cleanUp_loop_noop)
qed

theorem cleanUp_sweep_witness:
  "cleanUp faulty_ops sweep_tree [''d'', ''keep'', ''d/e'', ''gone''] =
     cleanUp_loop faulty_ops sweep_tree [''keep'', ''gone'', ''d/e'', ''d''] \<and>
   cleanUp_loop faulty_ops sweep_tree [''gone''] = (sweep_tree, None) \<and>
   cleanUp_loop faulty_ops sweep_tree [''locked''] = (sweep_tree, None) \<and>
   cleanUp_loop faulty_ops sweep_tree [''keep''] = (sweep_tree, None) \<and>
   cleanUp_loop faulty_ops sweep_tree [''d/e''] =
     ([(''d'', Directory), (''keep'', Directory), (''keep/x.md'', RegularFile ''x''),
       (''locked'', Directory), (''unreadable'', Directory), (''pinned'', Directory)], None) \<and>
   cleanUp_loop faulty_ops sweep_tree [''pinned''] =
     (sweep_tree, Some (Wrap ''failed to clean up a dir'' (FsErr EACCES))) \<and>
   cleanUp_loop faulty_ops sweep_tree [''unreadable''] =
     (sweep_tree, Some (Wrap ''failed to check if dir is empty'' (FsErr EACCES))) \<and>
   cleanUp faulty_ops sweep_tree [''keep'', ''gone''] = (sweep_tree, None)"
proof -
  let ?removed = "[(''d'', Directory), (''keep'', Directory), (''keep/x.md'', RegularFile ''x''),
       (''locked'', Directory), (''unreadable'', Directory), (''pinned'', Directory)]"
  have order: "sort_Reverse [''d'', ''keep'', ''d/e'', ''gone''] = [''keep'', ''gone'', ''d/e'', ''d'']"
    by code_simp
  have nil: "cleanUp_loop faulty_ops t [] = (t, None)" for t
    by simp
  have w1: "cleanUp faulty_ops sweep_tree [''d'', ''keep'', ''d/e'', ''gone''] =
     cleanUp_loop faulty_ops sweep_tree [''keep'', ''gone'', ''d/e'', ''d'']"
    using cleanUp_sweep [where ops = faulty_ops and s = sweep_tree
        and keys = "[''d'', ''keep'', ''d/e'', ''gone'']"]
    by (simp only: order)
  have gone: "\<not> fst (DirExists faulty_ops sweep_tree ''gone'')"
    by code_simp
  have "cleanUp_loop faulty_ops sweep_tree [''gone''] = cleanUp_loop faulty_ops sweep_tree []"
    using cleanUp_sweep [where ops = faulty_ops and s = sweep_tree and dir = "''gone''"
        and dirs = "[]"] gone
    by blast
  then have w2: "cleanUp_loop faulty_ops sweep_tree [''gone''] = (sweep_tree, None)"
    by (simp only: nil)
  have locked: "Stat faulty_ops sweep_tree ''locked'' = Inl EACCES"
    by code_simp
  have "cleanUp_loop faulty_ops sweep_tree [''locked''] = cleanUp_loop faulty_ops sweep_tree []"
    using cleanUp_sweep [where ops = faulty_ops and s = sweep_tree and dir = "''locked''"
        and dirs = "[]" and err = EACCES] locked
    by blast
  then have w3: "cleanUp_loop faulty_ops sweep_tree [''locked''] = (sweep_tree, None)"
    by (simp only: nil)
  have keep: "fst (DirExists faulty_ops sweep_tree ''keep'')"
    "IsEmpty faulty_ops sweep_tree ''keep'' = (False, None)"
    by code_simp+
  have "cleanUp_loop faulty_ops sweep_tree [''keep''] = cleanUp_loop faulty_ops sweep_tree []"
    using cleanUp_sweep [where ops = faulty_ops and s = sweep_tree and dir = "''keep''"
        and dirs = "[]"] keep
    by blast
  then have w4: "cleanUp_loop faulty_ops sweep_tree [''keep''] = (sweep_tree, None)"
    by (simp only: nil)
  have de: "fst (DirExists faulty_ops sweep_tree ''d/e'')"
    "IsEmpty faulty_ops sweep_tree ''d/e'' = (True, None)"
    "Remove faulty_ops sweep_tree ''d/e'' = (?removed, None)"
    by code_simp+
  have "cleanUp_loop faulty_ops sweep_tree [''d/e''] = cleanUp_loop faulty_ops ?removed []"
    using cleanUp_sweep [where ops = faulty_ops and s = sweep_tree and dir = "''d/e''"
        and dirs = "[]" and s' = ?removed] de
    by blast
  then have w5: "cleanUp_loop faulty_ops sweep_tree [''d/e''] = (?removed, None)"
    by (simp only: nil)
  have pinned: "fst (DirExists faulty_ops sweep_tree ''pinned'')"
    "IsEmpty faulty_ops sweep_tree ''pinned'' = (True, None)"
    "Remove faulty_ops sweep_tree ''pinned'' = (sweep_tree, Some EACCES)"
    by code_simp+
  have w6: "cleanUp_loop faulty_ops sweep_tree [''pinned''] =
     (sweep_tree, Some (Wrap ''failed to clean up a dir'' (FsErr EACCES)))"
    using cleanUp_sweep [where ops = faulty_ops and s = sweep_tree and dir = "''pinned''"
        and dirs = "[]" and s' = sweep_tree and e = EACCES] pinned
    by blast
  have unreadable: "fst (DirExists faulty_ops sweep_tree ''unreadable'')"
    "IsEmpty faulty_ops sweep_tree ''unreadable'' = (False, Some (FsErr EACCES))"
    by code_simp+
  have w7: "cleanUp_loop faulty_ops sweep_tree [''unreadable''] =
     (sweep_tree, Some (Wrap ''failed to check if dir is empty'' (FsErr EACCES)))"
    using cleanUp_sweep [where ops = faulty_ops and s = sweep_tree and dir = "''unreadable''"
        and dirs = "[]" and b = False and e' = "FsErr EACCES"] unreadable
    by blast
  have noop: "\<forall>k \<in> set [''keep'', ''gone''].
                \<not> fst (DirExists faulty_ops sweep_tree k) \<or>
                IsEmpty faulty_ops sweep_tree k = (False, None)"
    using gone keep by simp
  have w8: "cleanUp faulty_ops sweep_tree [''keep'', ''gone''] = (sweep_tree, None)"
    using cleanUp_sweep [where ops = faulty_ops and s = sweep_tree
        and keys = "[''keep'', ''gone'']"] noop
    by blast
  from w1 w2 w3 w4 w5 w6 w7 w8 show ?thesis
    by blast
qed

text \<open>
  C9 as stated fails for a failing \<open>stat\<close>: the directory \<open>locked\<close> exists, its
  status is refused with \<open>EACCES\<close>, and \<open>cleanUp\<close> returns without error.
\<close>

theorem cleanUp_stat_error_counterexample:
  "Stat faulty_ops sweep_tree ''locked'' = Inl EACCES \<and>
   mem_node sweep_tree ''locked'' = Some Directory \<and>
   cleanUp faulty_ops sweep_tree [''locked''] = (sweep_tree, None)"
  by code_simp

end
